theory Spec2Isabelle
  imports Main "HOL-Library.Multiset"
begin

section \<open>Abstract syntax\<close>

text \<open>
  The expression and statement trees of \<^verbatim>\<open>cozy.syntax\<close> and \<^verbatim>\<open>cozy.target_syntax\<close>, as far
  as \<^verbatim>\<open>state_maintenance.py\<close> builds or inspects them. Every node that the source types with
  \<^verbatim>\<open>with_type\<close> carries its type as the last field; a node built without
  \<^verbatim>\<open>with_type\<close> (the source does so for \<^verbatim>\<open>EIntersect\<close>) has \<open>TUntyped\<close> there. A lambda \<^verbatim>\<open>ELambda(arg, body)\<close> is stored
  in its parent as the three fields: name of the bound variable, its type, body; \<open>lam\<close> is
  the lambda taken out of its parent, and \<open>ELambdaExp\<close> is a lambda standing as an expression
  of its own.
\<close>

datatype ty =
    TInt
  | TBool
  | TNative string
  | THandle string ty
  | TBag ty
  | TSet ty
  | TList ty
  | TMap ty ty
  | TTuple "ty list"
  | TRecord "(string \<times> ty) list"
  | TMinHeap ty ty
  | TMaxHeap ty ty
  | TUntyped

datatype uop = UNot | UExists | UDistinct | UThe | ULength | UEmpty | UAreUnique | UAll | UAny | USum

datatype bop = BAnd | BOr | BPlus | BMinus | BEq | BDeepEq | BNe | BLt | BLe | BGt | BGe | BIn

datatype exp =
    EVar string ty
  | ENum int ty
  | EBool bool
  | EUnaryOp uop exp ty
  | EBinOp exp bop exp ty
  | ECond exp exp exp ty
  | ECall string "exp list" ty
  | EGetField exp string ty
  | EMakeRecord "(string \<times> exp) list" ty
  | ETupleGet exp nat ty
  | EEmptyList ty
  | ESingleton exp ty
  | EArgMin exp string ty exp ty
  | EArgMax exp string ty exp ty
  | EIntersect exp exp ty
  | ELet exp string ty exp ty
  | EStateVar exp ty
  | EMap exp string ty exp ty
  | EFilter exp string ty exp ty
  | EFlatMap exp string ty exp ty
  | EMakeMap2 exp string ty exp ty
  | EMapGet exp exp ty
  | EMapKeys exp ty
  | EMakeMinHeap exp string ty exp ty
  | EMakeMaxHeap exp string ty exp ty
  | EHeapPeek2 exp exp ty
  | ELambdaExp string ty exp

datatype lam = ELambda string ty exp

datatype stm =
    SNoOp
  | SSeq stm stm
  | SIf exp stm stm
  | SAssign exp exp
  | SCall exp string "exp list"
  | SDecl string exp
  | SForEach exp exp stm
  | SMapDel exp exp
  | SMapUpdate exp exp exp stm

fun type_of :: "exp \<Rightarrow> ty" where
  "type_of (EVar x t) = t"
| "type_of (ENum n t) = t"
| "type_of (EBool b) = TBool"
| "type_of (EUnaryOp u e t) = t"
| "type_of (EBinOp a b c t) = t"
| "type_of (ECond c a b t) = t"
| "type_of (ECall f xs t) = t"
| "type_of (EGetField e f t) = t"
| "type_of (EMakeRecord fs t) = t"
| "type_of (ETupleGet e i t) = t"
| "type_of (EEmptyList t) = t"
| "type_of (ESingleton e t) = t"
| "type_of (EArgMin e x tx b t) = t"
| "type_of (EArgMax e x tx b t) = t"
| "type_of (EIntersect a b t) = t"
| "type_of (ELet e x tx b t) = t"
| "type_of (EStateVar e t) = t"
| "type_of (EMap e x tx b t) = t"
| "type_of (EFilter e x tx b t) = t"
| "type_of (EFlatMap e x tx b t) = t"
| "type_of (EMakeMap2 e x tx b t) = t"
| "type_of (EMapGet m k t) = t"
| "type_of (EMapKeys m t) = t"
| "type_of (EMakeMinHeap e x tx b t) = t"
| "type_of (EMakeMaxHeap e x tx b t) = t"
| "type_of (EHeapPeek2 h n t) = t"
| "type_of (ELambdaExp a ta b) = TUntyped"

fun with_type :: "exp \<Rightarrow> ty \<Rightarrow> exp" where
  "with_type (EVar x t) u = EVar x u"
| "with_type (ENum n t) u = ENum n u"
| "with_type (EBool b) u = EBool b"
| "with_type (EUnaryOp o1 e t) u = EUnaryOp o1 e u"
| "with_type (EBinOp a b c t) u = EBinOp a b c u"
| "with_type (ECond c a b t) u = ECond c a b u"
| "with_type (ECall f xs t) u = ECall f xs u"
| "with_type (EGetField e f t) u = EGetField e f u"
| "with_type (EMakeRecord fs t) u = EMakeRecord fs u"
| "with_type (ETupleGet e i t) u = ETupleGet e i u"
| "with_type (EEmptyList t) u = EEmptyList u"
| "with_type (ESingleton e t) u = ESingleton e u"
| "with_type (EArgMin e x tx b t) u = EArgMin e x tx b u"
| "with_type (EArgMax e x tx b t) u = EArgMax e x tx b u"
| "with_type (EIntersect a b t) u = EIntersect a b u"
| "with_type (ELet e x tx b t) u = ELet e x tx b u"
| "with_type (EStateVar e t) u = EStateVar e u"
| "with_type (EMap e x tx b t) u = EMap e x tx b u"
| "with_type (EFilter e x tx b t) u = EFilter e x tx b u"
| "with_type (EFlatMap e x tx b t) u = EFlatMap e x tx b u"
| "with_type (EMakeMap2 e x tx b t) u = EMakeMap2 e x tx b u"
| "with_type (EMapGet m k t) u = EMapGet m k u"
| "with_type (EMapKeys m t) u = EMapKeys m u"
| "with_type (EMakeMinHeap e x tx b t) u = EMakeMinHeap e x tx b u"
| "with_type (EMakeMaxHeap e x tx b t) u = EMakeMaxHeap e x tx b u"
| "with_type (EHeapPeek2 h n t) u = EHeapPeek2 h n u"
| "with_type (ELambdaExp a ta b) u = ELambdaExp a ta b"

text \<open>A lambda handed to a function that takes an expression (\<^verbatim>\<open>mutate(e.f, op)\<close>).\<close>

fun exp_of_lam :: "lam \<Rightarrow> exp" where
  "exp_of_lam (ELambda a ta b) = ELambdaExp a ta b"

section \<open>Exceptions, the name counter, and the modules outside this file\<close>

text \<open>
  The exceptions the source raises. \<open>ForkOn\<close> is kept apart from the others in the result
  type because \<^verbatim>\<open>resolve_forks\<close> catches it and nothing else.
\<close>

datatype error =
    NotEfficient exp
  | NotImplementedError
  | UnknownFunc string
  | NotAnLvalue exp
  | AssertionError
  | ValueError
  | IndexError
  | AttributeError
  | KeyError
  | TypeError
  | OutOfFuel

datatype 'a result = Ok 'a | ForkOn exp | Raise error

text \<open>
  \<^verbatim>\<open>fresh_var\<close> and \<^verbatim>\<open>fresh_name\<close> draw names from a global counter. A computation
  takes the counter and returns its result (a value or an exception) with the new counter.
\<close>

type_synonym 'a M = "nat \<Rightarrow> 'a result \<times> nat"

definition ret :: "'a \<Rightarrow> 'a M" where
  "ret v = (\<lambda>k. (Ok v, k))"

definition raise :: "error \<Rightarrow> 'a M" where
  "raise x = (\<lambda>k. (Raise x, k))"

definition raise_fork :: "exp \<Rightarrow> 'a M" where
  "raise_fork c = (\<lambda>k. (ForkOn c, k))"

definition bnd :: "'a M \<Rightarrow> ('a \<Rightarrow> 'b M) \<Rightarrow> 'b M" where
  "bnd m f = (\<lambda>k. case m k of
       (Ok v, k') \<Rightarrow> f v k'
     | (ForkOn c, k') \<Rightarrow> (ForkOn c, k')
     | (Raise x, k') \<Rightarrow> (Raise x, k'))"

definition lift :: "'a result \<Rightarrow> 'a M" where
  "lift r = (\<lambda>k. (r, k))"

datatype pool = STATE_POOL | RUNTIME_POOL

datatype ctxt =
    RootCtx "exp list" "exp list"
  | UnderBinder ctxt exp exp pool

typedecl model

datatype visibility = Public | Private | Internal

datatype query = Query string visibility "(string \<times> ty) list" "exp list" exp "string option"

text \<open>
  Everything \<^verbatim>\<open>state_maintenance.py\<close> imports from the other modules of the package
  (\<^verbatim>\<open>cozy.syntax\<close>, \<^verbatim>\<open>cozy.syntax_tools\<close>, \<^verbatim>\<open>cozy.solver\<close>, \<^verbatim>\<open>cozy.simplification\<close>,
  \<^verbatim>\<open>cozy.typecheck\<close>, \<^verbatim>\<open>cozy.common\<close>, \<^verbatim>\<open>cozy.structures\<close>, \<^verbatim>\<open>cozy.opts\<close>) is a field of
  the record \<open>deps\<close>, which every function below takes as its first argument. Nothing is
  assumed about these fields unless a theorem says so.

  \<^item> \<open>exp_eq\<close> is \<^verbatim>\<open>==\<close> on expressions, \<open>alpha_equivalent\<close>, \<open>subst\<close>, \<open>free_vars\<close>,
    \<open>strip_EStateVar\<close> are the functions of that name, \<open>apply_to\<close> is the method of
    \<^verbatim>\<open>ELambda\<close>, \<open>exp_size\<close> the method \<^verbatim>\<open>size\<close>, \<open>exp_plus\<close> the operator \<^verbatim>\<open>+\<close> on expressions.
  \<^item> \<open>fresh_var\<close> and \<open>fresh_name\<close> take the counter first and return the chosen name
    with the new counter.
  \<^item> \<open>valid\<close> is \<^verbatim>\<open>cozy.solver.valid\<close>, and \<open>solver_valid ctx\<close> is
    \<^verbatim>\<open>solver_for(ctx).valid\<close>: the cache \<^verbatim>\<open>_SOLVERS\<close> only saves building the solver again.
  \<^item> \<open>rewrite\<close> is the traversal of \<^verbatim>\<open>BottomUpRewriter\<close>; it is given the two methods that
    the subclass of \<^verbatim>\<open>replace_get_value\<close> overrides, each of which receives \<^verbatim>\<open>self.visit\<close>.
  \<^item> \<open>eval_print e m\<close> is \<^verbatim>\<open>print(eval(e, m))\<close>: the exception it raises, if any. Printing
    itself is not modelled.
  \<^item> \<open>cond\<close> is \<^verbatim>\<open>simplify_cond\<close>; \<open>iter_type t\<close> is what \<^verbatim>\<open>for f, ft in t\<close> runs through.
\<close>

record deps =
  exp_eq :: "exp \<Rightarrow> exp \<Rightarrow> bool"
  alpha_equivalent :: "exp \<Rightarrow> exp \<Rightarrow> bool"
  subst :: "exp \<Rightarrow> (string \<times> exp) list \<Rightarrow> exp"
  free_vars :: "exp \<Rightarrow> exp list"
  query_free_vars :: "query \<Rightarrow> exp list"
  strip_EStateVar :: "exp \<Rightarrow> exp"
  apply_to :: "lam \<Rightarrow> exp \<Rightarrow> exp"
  exp_size :: "exp \<Rightarrow> nat"
  exp_plus :: "exp \<Rightarrow> exp \<Rightarrow> exp"
  pprint :: "exp \<Rightarrow> string"
  fresh_var :: "nat \<Rightarrow> ty \<Rightarrow> string option \<Rightarrow> exp list \<Rightarrow> string \<times> nat"
  fresh_name :: "nat \<Rightarrow> string \<Rightarrow> string \<times> nat"
  rewrite :: "((exp \<Rightarrow> exp M) \<Rightarrow> lam \<Rightarrow> lam M) \<Rightarrow> ((exp \<Rightarrow> exp M) \<Rightarrow> exp \<Rightarrow> exp M)
                \<Rightarrow> exp \<Rightarrow> exp M"
  EAll :: "exp list \<Rightarrow> exp"
  EAny :: "exp list \<Rightarrow> exp"
  ESum :: "exp list \<Rightarrow> exp"
  ENot :: "exp \<Rightarrow> exp"
  EEq :: "exp \<Rightarrow> exp \<Rightarrow> exp"
  ENe :: "exp \<Rightarrow> exp \<Rightarrow> exp"
  EGt :: "exp \<Rightarrow> exp \<Rightarrow> exp"
  EGe :: "exp \<Rightarrow> exp \<Rightarrow> exp"
  ELe :: "exp \<Rightarrow> exp \<Rightarrow> exp"
  EIn :: "exp \<Rightarrow> exp \<Rightarrow> exp"
  EImplies :: "exp \<Rightarrow> exp \<Rightarrow> exp"
  ELen :: "exp \<Rightarrow> exp"
  EExists :: "exp \<Rightarrow> exp"
  EEmpty :: "exp \<Rightarrow> exp"
  ECountIn :: "exp \<Rightarrow> exp \<Rightarrow> exp"
  seq :: "stm list \<Rightarrow> stm"
  retypecheck :: "exp \<Rightarrow> bool"
  is_numeric :: "ty \<Rightarrow> bool"
  valid :: "exp \<Rightarrow> bool"
  solver_valid :: "ctxt \<Rightarrow> exp \<Rightarrow> bool"
  simplify :: "exp \<Rightarrow> exp"
  cond :: "exp \<Rightarrow> exp \<Rightarrow> exp \<Rightarrow> exp"
  to_heap :: "exp \<Rightarrow> exp"
  compose :: "lam \<Rightarrow> lam \<Rightarrow> lam"
  is_collection :: "ty \<Rightarrow> bool"
  iter_type :: "ty \<Rightarrow> (string \<times> ty) list result"
  ELt :: "exp \<Rightarrow> exp \<Rightarrow> exp"
  exp_minus :: "exp \<Rightarrow> exp \<Rightarrow> exp"
  solver_satisfiable :: "ctxt \<Rightarrow> exp \<Rightarrow> bool"
  solver_satisfy :: "ctxt \<Rightarrow> exp \<Rightarrow> model option"
  eval_print :: "exp \<Rightarrow> model option \<Rightarrow> error option"
  construct_value :: "ty \<Rightarrow> exp"
  skip_stateless_synthesis :: bool
  update_numbers_with_deltas :: bool

definition T :: exp where "T = EBool True"
definition F :: exp where "F = EBool False"
definition ZERO :: exp where "ZERO = ENum 0 TInt"
definition ONE :: exp where "ONE = ENum 1 TInt"

section \<open>Expression mutation\<close>

definition replace_field :: "exp \<Rightarrow> string \<Rightarrow> exp \<Rightarrow> exp M" where
  "replace_field record field new_value =
     (case type_of record of
        TRecord flds \<Rightarrow>
          ret (EMakeRecord
                 (map (\<lambda>(f, ft). (f, if f = field then new_value else EGetField record f ft)) flds)
                 (type_of record))
      | _ \<Rightarrow> raise AttributeError)"

definition visit_ELambda :: "deps \<Rightarrow> exp list \<Rightarrow> (exp \<Rightarrow> exp M) \<Rightarrow> lam \<Rightarrow> lam M" where
  "visit_ELambda x fvs visit f =
     (case f of ELambda a ta body \<Rightarrow>
        bnd (if list_ex (exp_eq x (EVar a ta)) fvs
             then (\<lambda>k. case fresh_var x k ta None fvs of
                          (v, k') \<Rightarrow> (Ok (ELambda v ta (apply_to x f (EVar v ta))), k'))
             else ret f)
          (\<lambda>f'. case f' of ELambda a' ta' body' \<Rightarrow>
             bnd (visit body') (\<lambda>b. ret (ELambda a' ta' b))))"

definition visit_EGetField :: "deps \<Rightarrow> ty \<Rightarrow> exp \<Rightarrow> exp \<Rightarrow> (exp \<Rightarrow> exp M) \<Rightarrow> exp \<Rightarrow> exp M" where
  "visit_EGetField x t ptr new_value visit e =
     (case e of
        EGetField e0 f te \<Rightarrow>
          bnd (visit e0) (\<lambda>ee.
            let res = EGetField ee f te in
            if type_of e0 = t \<and> f = ''val''
            then ret (ECond (EEq x ee ptr) new_value res te)
            else ret res)
      | _ \<Rightarrow> raise AttributeError)"

definition replace_get_value :: "deps \<Rightarrow> exp \<Rightarrow> exp \<Rightarrow> exp \<Rightarrow> exp M" where
  "replace_get_value x e ptr new_value =
     (let t = type_of ptr;
          fvs = free_vars x ptr @ free_vars x new_value
      in rewrite x (visit_ELambda x fvs) (visit_EGetField x t ptr new_value) e)"

fun do_assignment :: "deps \<Rightarrow> exp \<Rightarrow> exp \<Rightarrow> exp \<Rightarrow> exp M" where
  "do_assignment x (EVar i t) new_value e = ret (subst x e [(i, new_value)])"
| "do_assignment x (EGetField le f t) new_value e =
     (case type_of le of
        THandle hn ht \<Rightarrow>
          (if f = ''val'' then replace_get_value x e le new_value else raise AssertionError)
      | _ \<Rightarrow> bnd (replace_field le f new_value) (\<lambda>r. do_assignment x le r e))"
| "do_assignment x lval new_value e = raise (NotAnLvalue lval)"

fun stm_weight :: "stm \<Rightarrow> nat" where
  "stm_weight (SSeq a b) = 2 * stm_weight a + stm_weight b + 1"
| "stm_weight (SIf c a b) = stm_weight a + stm_weight b + 1"
| "stm_weight (SCall t f args) = (if f = ''add'' \<or> f = ''remove'' then 2 else 1)"
| "stm_weight s = 0"

function (sequential) mutate :: "deps \<Rightarrow> exp \<Rightarrow> stm \<Rightarrow> exp M" where
  "mutate x e SNoOp = ret e"
| "mutate x e (SAssign lhs rhs) = do_assignment x lhs rhs e"
| "mutate x e (SCall target func args) =
     (if func = ''add'' then
        (case args of [] \<Rightarrow> raise IndexError
         | a # rest \<Rightarrow> mutate x e (SCall target ''add_all'' [ESingleton a (type_of target)]))
      else if func = ''add_all'' then
        (case args of [] \<Rightarrow> raise IndexError
         | a # rest \<Rightarrow> mutate x e (SAssign target (EBinOp target BPlus a (type_of target))))
      else if func = ''remove'' then
        (case args of [] \<Rightarrow> raise IndexError
         | a # rest \<Rightarrow> mutate x e (SCall target ''remove_all'' [ESingleton a (type_of target)]))
      else if func = ''remove_all'' then
        (case args of [] \<Rightarrow> raise IndexError
         | a # rest \<Rightarrow> mutate x e (SAssign target (EBinOp target BMinus a (type_of target))))
      else raise (UnknownFunc func))"
| "mutate x e (SIf c s1 s2) =
     bnd (mutate x e s1) (\<lambda>then_branch.
     bnd (mutate x e s2) (\<lambda>else_branch.
       if alpha_equivalent x then_branch else_branch then ret then_branch
       else ret (ECond c then_branch else_branch (type_of e))))"
| "mutate x e (SSeq (SSeq a b) c) = mutate x e (SSeq a (SSeq b c))"
| "mutate x e (SSeq s1 s2) =
     bnd (mutate x e s2) (\<lambda>e1.
     bnd (mutate x e1 s1) (\<lambda>e2.
       case s1 of SDecl i v \<Rightarrow> ret (subst x e2 [(i, v)]) | _ \<Rightarrow> ret e2))"
| "mutate x e (SDecl i v) = ret e"
| "mutate x e s = raise NotImplementedError"
  by pat_completeness auto
termination
  by (relation "measure (\<lambda>(x, e, s). stm_weight s)") auto

section \<open>Three-valued answers\<close>

text \<open>\<open>Yes\<close> and \<open>No\<close> are Python's \<^verbatim>\<open>True\<close> and \<^verbatim>\<open>False\<close>; \<open>MAYBE\<close> is the object \<^verbatim>\<open>MAYBE\<close>.\<close>

datatype maybe = Yes | No | MAYBE

definition definitely :: "maybe \<Rightarrow> bool" where
  "definitely v = (v = Yes)"

definition possibly :: "maybe \<Rightarrow> bool" where
  "possibly v = (v \<noteq> No)"

definition both :: "maybe \<Rightarrow> maybe \<Rightarrow> maybe" where
  "both a b = (if definitely a \<and> definitely b then Yes
               else if possibly a \<and> possibly b then MAYBE
               else No)"

definition invert :: "maybe \<Rightarrow> maybe" where
  "invert a = (if definitely a then No else if \<not> possibly a then Yes else MAYBE)"

fun singleton_or_empty :: "exp \<Rightarrow> maybe" where
  "singleton_or_empty (EEmptyList t) = Yes"
| "singleton_or_empty (ESingleton e t) = Yes"
| "singleton_or_empty (EStateVar e t) = singleton_or_empty e"
| "singleton_or_empty (EMap e a ta b t) = singleton_or_empty e"
| "singleton_or_empty (EFilter e a ta b t) = singleton_or_empty e"
| "singleton_or_empty (EFlatMap e a ta b t) = both (singleton_or_empty e) (singleton_or_empty b)"
| "singleton_or_empty (EUnaryOp UDistinct e t) = singleton_or_empty e"
| "singleton_or_empty (ECond c a b t) =
     (let then_case = singleton_or_empty a; else_case = singleton_or_empty b in
      if definitely then_case \<and> definitely else_case then Yes
      else if possibly then_case \<or> possibly else_case then MAYBE
      else No)"
| "singleton_or_empty e = MAYBE"

fun is_singleton :: "exp \<Rightarrow> maybe" where
  "is_singleton (ESingleton e t) = Yes"
| "is_singleton (EMap e a ta b t) = is_singleton e"
| "is_singleton (EUnaryOp UDistinct e t) = is_singleton e"
| "is_singleton e = MAYBE"

fun is_empty :: "exp \<Rightarrow> maybe" where
  "is_empty (EEmptyList t) = Yes"
| "is_empty (EMap e a ta b t) = is_empty e"
| "is_empty (EFilter e a ta b t) = is_empty e"
| "is_empty (EUnaryOp UDistinct e t) = is_empty e"
| "is_empty e = MAYBE"

fun are_unique :: "exp \<Rightarrow> maybe" where
  "are_unique (EEmptyList t) = Yes"
| "are_unique (ESingleton e t) = Yes"
| "are_unique (EUnaryOp UDistinct e t) = Yes"
| "are_unique e = MAYBE"

definition edistinct :: "exp \<Rightarrow> exp" where
  "edistinct e = (if definitely (singleton_or_empty e) then e
                  else EUnaryOp UDistinct e (type_of e))"

section \<open>Results without the counter\<close>

definition rbind :: "'a result \<Rightarrow> ('a \<Rightarrow> 'b result) \<Rightarrow> 'b result" where
  "rbind m f = (case m of Ok v \<Rightarrow> f v | ForkOn c \<Rightarrow> ForkOn c | Raise z \<Rightarrow> Raise z)"

fun rmap :: "('a \<Rightarrow> 'b result) \<Rightarrow> 'a list \<Rightarrow> 'b list result" where
  "rmap f [] = Ok []"
| "rmap f (a # as) = rbind (f a) (\<lambda>b. rbind (rmap f as) (\<lambda>bs. Ok (b # bs)))"

lemma rbind_cong [fundef_cong]:
  "m = m' \<Longrightarrow> (\<And>v. m' = Ok v \<Longrightarrow> f v = f' v) \<Longrightarrow> rbind m f = rbind m' f'"
  by (cases m') (simp_all add: rbind_def)

lemma rmap_cong [fundef_cong]:
  "xs = ys \<Longrightarrow> (\<And>a. a \<in> set ys \<Longrightarrow> f a = g a) \<Longrightarrow> rmap f xs = rmap g ys"
  by (induction ys arbitrary: xs) (auto simp: rbind_def split: result.splits)

section \<open>Branching on the oracle\<close>

fun fork :: "deps \<Rightarrow> ctxt \<Rightarrow> exp \<Rightarrow> exp \<Rightarrow> 'a \<Rightarrow> 'a \<Rightarrow> 'a result" where
  "fork x context assumptions (EBinOp e1 BAnd e2 t) then_branch else_branch =
     rbind (fork x context assumptions e2 then_branch else_branch) (\<lambda>inner.
       fork x context assumptions e1 inner else_branch)"
| "fork x context assumptions (EBinOp e1 BOr e2 t) then_branch else_branch =
     rbind (fork x context assumptions e2 then_branch else_branch) (\<lambda>inner.
       fork x context assumptions e1 then_branch inner)"
| "fork x context assumptions (EUnaryOp UNot e t) then_branch else_branch =
     fork x context assumptions e else_branch then_branch"
| "fork x context assumptions (ECond c a b t) then_branch else_branch =
     rbind (fork x context assumptions a then_branch else_branch) (\<lambda>r1.
     rbind (fork x context assumptions b then_branch else_branch) (\<lambda>r2.
       fork x context assumptions c r1 r2))"
| "fork x context assumptions cnd then_branch else_branch =
     (if solver_valid x context (EImplies x assumptions cnd) then Ok then_branch
      else if solver_valid x context (EImplies x assumptions (ENot x cnd)) then Ok else_branch
      else ForkOn cnd)"

section \<open>Views of a node\<close>

text \<open>Each view answers one \<^verbatim>\<open>isinstance\<close> test of the source and hands out the fields.\<close>

fun is_EEmptyList :: "exp \<Rightarrow> bool" where
  "is_EEmptyList (EEmptyList t) = True"
| "is_EEmptyList e = False"

fun as_cond :: "exp \<Rightarrow> (exp \<times> exp \<times> exp \<times> ty) option" where
  "as_cond (ECond c a b t) = Some (c, a, b, t)"
| "as_cond e = None"

fun as_plus :: "exp \<Rightarrow> (exp \<times> exp \<times> ty) option" where
  "as_plus (EBinOp a BPlus b t) = Some (a, b, t)"
| "as_plus e = None"

fun as_minus :: "exp \<Rightarrow> (exp \<times> exp \<times> ty) option" where
  "as_minus (EBinOp a BMinus b t) = Some (a, b, t)"
| "as_minus e = None"

fun as_singleton :: "exp \<Rightarrow> (exp \<times> ty) option" where
  "as_singleton (ESingleton e t) = Some (e, t)"
| "as_singleton e = None"

fun as_filter :: "exp \<Rightarrow> (exp \<times> lam \<times> ty) option" where
  "as_filter (EFilter e a ta b t) = Some (e, ELambda a ta b, t)"
| "as_filter e = None"

fun as_map :: "exp \<Rightarrow> (exp \<times> lam \<times> ty) option" where
  "as_map (EMap e a ta b t) = Some (e, ELambda a ta b, t)"
| "as_map e = None"

fun as_the :: "exp \<Rightarrow> exp option" where
  "as_the (EUnaryOp UThe e t) = Some e"
| "as_the e = None"

fun as_length :: "exp \<Rightarrow> exp option" where
  "as_length (EUnaryOp ULength e t) = Some e"
| "as_length e = None"

fun as_record :: "exp \<Rightarrow> ((string \<times> exp) list \<times> ty) option" where
  "as_record (EMakeRecord fs t) = Some (fs, t)"
| "as_record e = None"

fun lam_arg :: "lam \<Rightarrow> exp" where
  "lam_arg (ELambda a ta b) = EVar a ta"

fun lam_body :: "lam \<Rightarrow> exp" where
  "lam_body (ELambda a ta b) = b"

lemma as_cond_SomeD: "as_cond e = Some (c, a, b, t) \<Longrightarrow> e = ECond c a b t"
  by (cases e) auto

lemma as_plus_SomeD: "as_plus e = Some (a, b, t) \<Longrightarrow> e = EBinOp a BPlus b t"
  by (cases e rule: as_plus.cases) auto

lemma as_minus_SomeD: "as_minus e = Some (a, b, t) \<Longrightarrow> e = EBinOp a BMinus b t"
  by (cases e rule: as_minus.cases) auto

lemma as_singleton_SomeD: "as_singleton e = Some (a, t) \<Longrightarrow> e = ESingleton a t"
  by (cases e) auto

lemma as_filter_SomeD: "as_filter e = Some (a, f, t) \<Longrightarrow> \<exists>v tv b. e = EFilter a v tv b t \<and> f = ELambda v tv b"
  by (cases e) auto

lemma as_map_SomeD: "as_map e = Some (a, f, t) \<Longrightarrow> \<exists>v tv b. e = EMap a v tv b t \<and> f = ELambda v tv b"
  by (cases e) auto

lemma as_the_SomeD: "as_the e = Some a \<Longrightarrow> \<exists>t. e = EUnaryOp UThe a t"
  by (cases e rule: as_the.cases) auto

lemma as_length_SomeD: "as_length e = Some a \<Longrightarrow> \<exists>t. e = EUnaryOp ULength a t"
  by (cases e rule: as_length.cases) auto

lemma as_record_SomeD: "as_record e = Some (fs, t) \<Longrightarrow> e = EMakeRecord fs t"
  by (cases e) auto

section \<open>Helpers of the delta engine\<close>

definition bag_union :: "exp \<Rightarrow> exp \<Rightarrow> exp" where
  "bag_union e1 e2 = (if is_EEmptyList e1 then e2
                      else if is_EEmptyList e2 then e1
                      else EBinOp e1 BPlus e2 (type_of e1))"

text \<open>\<^verbatim>\<open>dict(fields)[f]\<close>: the last binding of a key wins, a missing key raises.\<close>

definition dict_get :: "(string \<times> exp) list \<Rightarrow> string \<Rightarrow> exp result" where
  "dict_get fs f = (case map_of (rev fs) f of Some v \<Rightarrow> Ok v | None \<Rightarrow> Raise KeyError)"

lemma dict_get_size: "dict_get fs f = Ok v \<Longrightarrow> size v < size (EMakeRecord fs t)"
proof -
  assume "dict_get fs f = Ok v"
  then have "(f, v) \<in> set fs"
    by (auto simp: dict_get_def split: option.splits dest: map_of_SomeD)
  then have "size v < Suc (size_list (size_prod (\<lambda>_. 0) size) fs)"
    by (induction fs) auto
  then show ?thesis by simp
qed

function equal :: "deps \<Rightarrow> exp \<Rightarrow> exp \<Rightarrow> exp result" where
  "equal x e1 e2 =
     (case as_record e1 of
        Some (fs1, t1) \<Rightarrow>
          (case as_record e2 of
             Some (fs2, t2) \<Rightarrow>
               rbind (iter_type x t1) (\<lambda>flds.
               rbind (rmap (\<lambda>(f, ft).
                        rbind (dict_get fs1 f) (\<lambda>a.
                        rbind (dict_get fs2 f) (\<lambda>b.
                        rbind (equal x a b) (\<lambda>r. Ok (simplify x r))))) flds) (\<lambda>parts.
               Ok (EAll x parts)))
           | None \<Rightarrow> Ok (EEq x e1 e2))
      | None \<Rightarrow> Ok (EEq x e1 e2))"
  by pat_completeness auto
termination
  by (relation "measure (\<lambda>(x, e1, e2). size e1)")
     (auto dest!: as_record_SomeD dest: dict_get_size)

declare equal.simps [simp del]

definition not_equal :: "deps \<Rightarrow> exp \<Rightarrow> exp \<Rightarrow> exp" where
  "not_equal x e1 e2 = ENe x e1 e2"

function element_of :: "deps \<Rightarrow> exp \<Rightarrow> exp \<Rightarrow> maybe"
  and subset_of :: "deps \<Rightarrow> exp \<Rightarrow> exp \<Rightarrow> maybe" where
  "element_of x e xs =
     (case as_filter xs of
        Some (xs_e, p, t) \<Rightarrow> element_of x e xs_e
      | None \<Rightarrow>
          if is_EEmptyList xs then No
          else (case as_the e of
                  Some e_e \<Rightarrow> both (subset_of x e_e xs) (invert (is_empty e_e))
                | None \<Rightarrow> MAYBE))"
| "subset_of x xs ys =
     (if alpha_equivalent x xs ys then Yes
      else if is_EEmptyList xs then Yes
      else (case as_cond xs of
        Some (c, a, b, t) \<Rightarrow>
          (let s1 = subset_of x a ys; s2 = subset_of x b ys in
           if definitely s1 \<and> definitely s2 then Yes
           else if possibly s1 \<and> possibly s2 then MAYBE
           else No)
      | None \<Rightarrow>
      (case as_singleton xs of
        Some (xs_e, t) \<Rightarrow> element_of x xs_e ys
      | None \<Rightarrow>
      (case as_filter xs of
        Some (xs_e, p, t) \<Rightarrow> subset_of x xs_e ys
      | None \<Rightarrow>
      (case (case as_map xs of
               Some (xs_e, f, t) \<Rightarrow> if exp_eq x (lam_arg f) (lam_body f) then Some xs_e else None
             | None \<Rightarrow> None) of
        Some xs_e \<Rightarrow> subset_of x xs_e ys
      | None \<Rightarrow>
      (case (case as_map ys of
               Some (ys_e, f, t) \<Rightarrow> if exp_eq x (lam_arg f) (lam_body f) then Some ys_e else None
             | None \<Rightarrow> None) of
        Some ys_e \<Rightarrow> subset_of x xs ys_e
      | None \<Rightarrow> MAYBE))))))"
  by pat_completeness auto
termination
  by (relation "measure (\<lambda>s. case s of Inl (x, e, xs) \<Rightarrow> size e + size xs
                                     | Inr (x, xs, ys) \<Rightarrow> size xs + size ys)")
     (auto dest!: as_filter_SomeD as_the_SomeD as_cond_SomeD as_singleton_SomeD as_map_SomeD
           split: option.splits if_splits)

declare element_of.simps [simp del] subset_of.simps [simp del]

function bag_contains :: "deps \<Rightarrow> exp \<Rightarrow> exp \<Rightarrow> exp result" where
  "bag_contains x bag e =
     (if definitely (element_of x e bag) then Ok T
      else (case as_filter bag of
        Some (bag_e, p, t) \<Rightarrow>
          rbind (bag_contains x bag_e e) (\<lambda>r. Ok (EAll x [r, apply_to x p e]))
      | None \<Rightarrow>
      (case as_singleton bag of
        Some (bag_e, t) \<Rightarrow> equal x bag_e e
      | None \<Rightarrow> Ok (EIn x e bag))))"
  by pat_completeness auto
termination
  by (relation "measure (\<lambda>(x, bag, e). size bag)") (auto dest!: as_filter_SomeD)

declare bag_contains.simps [simp del]

function efilter :: "deps \<Rightarrow> exp \<Rightarrow> lam \<Rightarrow> exp" where
  "efilter x e f =
     (if exp_eq x (lam_body f) T then e
      else if is_EEmptyList e then EEmptyList (type_of e)
      else (case as_plus e of
        Some (e1, e2, t) \<Rightarrow> bag_union (efilter x e1 f) (efilter x e2 f)
      | None \<Rightarrow>
      (case as_map e of
        Some (e_e, e_f, t) \<Rightarrow> efilter x e_e (compose x f e_f)
      | None \<Rightarrow>
      (case as_singleton e of
        Some (e_e, t) \<Rightarrow> cond x (simplify x (apply_to x f e_e)) e (EEmptyList (type_of e))
      | None \<Rightarrow>
        (case f of ELambda a ta b \<Rightarrow> EFilter e a ta b (type_of e))))))"
  by pat_completeness auto
termination
  by (relation "measure (\<lambda>(x, e, f). size e)") (auto dest!: as_plus_SomeD as_map_SomeD)

declare efilter.simps [simp del]

function flatmap :: "deps \<Rightarrow> ctxt \<Rightarrow> exp \<Rightarrow> exp \<Rightarrow> lam \<Rightarrow> exp result" where
  "flatmap x context assumptions e f =
     (if (case as_singleton (lam_body f) of
            Some (b_e, t) \<Rightarrow> exp_eq x b_e (lam_arg f) | None \<Rightarrow> False) then Ok e
      else if is_EEmptyList e \<or> is_EEmptyList (lam_body f)
        then Ok (EEmptyList (type_of (lam_body f)))
      else (case as_singleton e of
        Some (e_e, t) \<Rightarrow>
          (let res = simplify x (apply_to x f e_e) in
           case as_cond res of
             Some (c, a, b, tr) \<Rightarrow> fork x context assumptions c a b
           | None \<Rightarrow> Ok res)
      | None \<Rightarrow>
      (case as_plus e of
        Some (e1, e2, t) \<Rightarrow>
          rbind (flatmap x context assumptions e1 f) (\<lambda>r1.
          rbind (flatmap x context assumptions e2 f) (\<lambda>r2.
            Ok (bag_union r1 r2)))
      | None \<Rightarrow>
      (case as_cond e of
        Some (c, a, b, t) \<Rightarrow>
          rbind (flatmap x context assumptions a f) (\<lambda>r1.
          rbind (flatmap x context assumptions b f) (\<lambda>r2.
            fork x context assumptions c r1 r2))
      | None \<Rightarrow>
        (case f of ELambda v tv body \<Rightarrow> Ok (EFlatMap e v tv body (type_of body)))))))"
  by pat_completeness auto
termination
  by (relation "measure (\<lambda>(x, context, assumptions, e, f). size e)")
     (auto dest!: as_plus_SomeD as_cond_SomeD)

declare flatmap.simps [simp del]

function bag_intersection :: "deps \<Rightarrow> ctxt \<Rightarrow> exp \<Rightarrow> exp \<Rightarrow> exp \<Rightarrow> exp result" where
  "bag_intersection x context assumptions e1 e2 =
     (if is_EEmptyList e1 then Ok e1
      else if is_EEmptyList e2 then Ok e2
      else (case as_cond e1 of
        Some (c, a, b, t) \<Rightarrow>
          rbind (bag_intersection x context assumptions a e2) (\<lambda>r1.
          rbind (bag_intersection x context assumptions b e2) (\<lambda>r2.
            fork x context assumptions c r1 r2))
      | None \<Rightarrow>
      (case as_cond e2 of
        Some (c, a, b, t) \<Rightarrow>
          rbind (bag_intersection x context assumptions e1 a) (\<lambda>r1.
          rbind (bag_intersection x context assumptions e1 b) (\<lambda>r2.
            fork x context assumptions c r1 r2))
      | None \<Rightarrow>
      (case (as_singleton e1, as_singleton e2) of
        (Some (a, t1), Some (b, t2)) \<Rightarrow>
          rbind (equal x a b) (\<lambda>c.
            fork x context assumptions c e1 (EEmptyList (type_of e1)))
      | _ \<Rightarrow> Ok (EIntersect e1 e2 TUntyped)))))"
  by pat_completeness auto
termination
  by (relation "measure (\<lambda>(x, context, assumptions, e1, e2). size e1 + size e2)")
     (auto dest!: as_cond_SomeD)

declare bag_intersection.simps [simp del]

function bag_subtract :: "deps \<Rightarrow> ctxt \<Rightarrow> exp \<Rightarrow> exp \<Rightarrow> exp \<Rightarrow> exp result" where
  "bag_subtract x context assumptions e1 e2 =
     (if is_EEmptyList e1 then Ok e1
      else if is_EEmptyList e2 then Ok e1
      else if alpha_equivalent x e1 e2 then Ok (EEmptyList (type_of e1))
      else (case as_cond e2 of
        Some (c, a, b, t) \<Rightarrow>
          rbind (bag_subtract x context assumptions e1 a) (\<lambda>r1.
          rbind (bag_subtract x context assumptions e1 b) (\<lambda>r2.
          rbind (fork x context assumptions c r1 r2) (\<lambda>r.
            Ok (with_type r (type_of e1)))))
      | None \<Rightarrow>
      (case as_cond e1 of
        Some (c, a, b, t) \<Rightarrow>
          rbind (bag_subtract x context assumptions a e2) (\<lambda>r1.
          rbind (bag_subtract x context assumptions b e2) (\<lambda>r2.
          rbind (fork x context assumptions c r1 r2) (\<lambda>r.
            Ok (with_type r (type_of e1)))))
      | None \<Rightarrow>
      (case as_plus e2 of
        Some (a, b, t) \<Rightarrow>
          rbind (bag_subtract x context assumptions e1 a) (\<lambda>r.
            bag_subtract x context assumptions r b)
      | None \<Rightarrow>
      if (case as_minus e1 of Some (a, b, t) \<Rightarrow> alpha_equivalent x a e2 | None \<Rightarrow> False)
        then Ok (EEmptyList (type_of e1))
      else
      (case (case as_minus e2 of
               Some (a, b, t) \<Rightarrow> if alpha_equivalent x a e1 then as_singleton b else None
             | None \<Rightarrow> None) of
        Some (d, td) \<Rightarrow>
          rbind (bag_contains x e1 d) (\<lambda>c.
            fork x context assumptions c (ESingleton d td) (EEmptyList (type_of e1)))
      | None \<Rightarrow>
      (case (as_singleton e1, as_singleton e2) of
        (Some (a, t1), Some (b, t2)) \<Rightarrow>
          rbind (equal x a b) (\<lambda>c.
            fork x context assumptions c (EEmptyList (type_of e1)) e1)
      | _ \<Rightarrow> Ok (EBinOp e1 BMinus e2 (type_of e1))))))))"
  by pat_completeness auto
termination
  by (relation "measures [\<lambda>(x, context, assumptions, e1, e2). size e2,
                          \<lambda>(x, context, assumptions, e1, e2). size e1]")
     (auto dest!: as_cond_SomeD as_plus_SomeD)

declare bag_subtract.simps [simp del]

function exists :: "deps \<Rightarrow> exp \<Rightarrow> exp result" where
  "exists x e =
     (if \<not> is_collection x (type_of e) then Raise AssertionError
      else if definitely (is_empty e) then Ok F
      else if definitely (is_singleton e) then Ok T
      else (case as_plus e of
        Some (e1, e2, t) \<Rightarrow>
          rbind (exists x e1) (\<lambda>r1.
          rbind (exists x e2) (\<lambda>r2. Ok (EAny x [r1, r2])))
      | None \<Rightarrow>
      (case as_cond e of
        Some (c, a, b, t) \<Rightarrow>
          rbind (exists x a) (\<lambda>r1.
          rbind (exists x b) (\<lambda>r2. Ok (cond x c r1 r2)))
      | None \<Rightarrow> Ok (EExists x e))))"
  by pat_completeness auto
termination
  by (relation "measure (\<lambda>(x, e). size e)") (auto dest!: as_plus_SomeD as_cond_SomeD)

declare exists.simps [simp del]

function len_of :: "deps \<Rightarrow> exp \<Rightarrow> exp result" where
  "len_of x e =
     (if definitely (singleton_or_empty e)
        then rbind (exists x e) (\<lambda>r. Ok (cond x r ONE ZERO))
      else (case as_map e of
        Some (e_e, f, t) \<Rightarrow> len_of x e_e
      | None \<Rightarrow>
      (case as_cond e of
        Some (c, a, b, t) \<Rightarrow>
          rbind (len_of x a) (\<lambda>r1.
          rbind (len_of x b) (\<lambda>r2. Ok (cond x c r1 r2)))
      | None \<Rightarrow> Ok (ELen x e))))"
  by pat_completeness auto
termination
  by (relation "measure (\<lambda>(x, e). size e)") (auto dest!: as_map_SomeD as_cond_SomeD)

declare len_of.simps [simp del]

fun nonnegative :: "exp \<Rightarrow> maybe" where
  "nonnegative (EUnaryOp ULength e t) = Yes"
| "nonnegative (EBinOp e1 BPlus e2 t) = both (nonnegative e1) (nonnegative e2)"
| "nonnegative e = MAYBE"

function ge :: "deps \<Rightarrow> exp \<Rightarrow> exp \<Rightarrow> exp result" where
  "ge x a b =
     (case as_cond a of
        Some (c, a1, a2, t) \<Rightarrow>
          rbind (ge x a1 b) (\<lambda>r1.
          rbind (ge x a2 b) (\<lambda>r2. Ok (cond x c r1 r2)))
      | None \<Rightarrow>
      (case as_cond b of
        Some (c, b1, b2, t) \<Rightarrow>
          rbind (ge x a b1) (\<lambda>r1.
          rbind (ge x a b2) (\<lambda>r2. Ok (cond x c r1 r2)))
      | None \<Rightarrow>
        if definitely (nonnegative a) \<and> exp_eq x b ZERO then Ok T
        else (case (if exp_eq x a ZERO then as_length b else None) of
                Some b_e \<Rightarrow> rbind (exists x b_e) (\<lambda>r. Ok (ENot x r))
              | None \<Rightarrow> Ok (EGe x a b))))"
  by pat_completeness auto
termination
  by (relation "measure (\<lambda>(x, a, b). size a + size b)") (auto dest!: as_cond_SomeD)

declare ge.simps [simp del]

fun statevar :: "exp \<Rightarrow> exp result" where
  "statevar (EStateVar e t) = Raise AssertionError"
| "statevar e = Ok (EStateVar e (type_of e))"

text \<open>The element type \<^verbatim>\<open>t.t\<close> of a collection type.\<close>

fun elem_type :: "ty \<Rightarrow> ty result" where
  "elem_type (TBag t) = Ok t"
| "elem_type (TSet t) = Ok t"
| "elem_type (TList t) = Ok t"
| "elem_type t = Raise AttributeError"

definition to_bag :: "exp \<Rightarrow> exp result" where
  "to_bag e = rbind (elem_type (type_of e)) (\<lambda>t. Ok (EMap e ''x'' t (EVar ''x'' t) (TBag t)))"

definition fresh :: "deps \<Rightarrow> ty \<Rightarrow> string option \<Rightarrow> exp list \<Rightarrow> string M" where
  "fresh x t hint omit = (\<lambda>k. case fresh_var x k t hint omit of (v, k') \<Rightarrow> (Ok v, k'))"

fun mmap :: "('a \<Rightarrow> 'b M) \<Rightarrow> 'a list \<Rightarrow> 'b list M" where
  "mmap f [] = ret []"
| "mmap f (a # as) = bnd (f a) (\<lambda>b. bnd (mmap f as) (\<lambda>bs. ret (b # bs)))"

text \<open>
  \<^verbatim>\<open>minimal_model\<close> as \<^verbatim>\<open>better_mutate\<close> calls it, with the solver of the context. The loop
  over \<^verbatim>\<open>max_len\<close> stops at the first model.
\<close>

fun first_model :: "deps \<Rightarrow> ctxt \<Rightarrow> exp \<Rightarrow> exp list \<Rightarrow> int list \<Rightarrow> model option" where
  "first_model x context formula collections [] = None"
| "first_model x context formula collections (max_len # rest) =
     (case solver_satisfy x context
             (EAll x [ELt x (ESum x (map (ELen x) collections)) (ENum max_len TInt), formula]) of
        Some m \<Rightarrow> Some m
      | None \<Rightarrow> first_model x context formula collections rest)"

definition minimal_model :: "deps \<Rightarrow> exp \<Rightarrow> nat \<Rightarrow> ctxt \<Rightarrow> model option" where
  "minimal_model x formula collection_depth context =
     (if solver_satisfiable x context formula then
        (let collections = filter (\<lambda>v. is_collection x (type_of v)) (free_vars x formula) in
         first_model x context formula collections
           (map int [0 ..< collection_depth * length collections + 1]))
      else None)"

section \<open>The delta engine\<close>

text \<open>
  \<^verbatim>\<open>resolve_forks\<close>, \<^verbatim>\<open>bag_delta\<close>, \<^verbatim>\<open>better_mutate\<close> and \<^verbatim>\<open>became_bool\<close> call each other, on
  expressions that come out of \<^verbatim>\<open>apply_to\<close> and under assumptions that grow with every fork,
  so nothing bounds the recursion. They take a second argument that bounds the depth of calls;
  at depth \<open>0\<close> the result is \<open>OutOfFuel\<close>.
\<close>

fun resolve_forks :: "deps \<Rightarrow> nat \<Rightarrow> exp \<Rightarrow> (exp \<Rightarrow> exp M) \<Rightarrow> exp M" where
  "resolve_forks x 0 assumptions func = raise OutOfFuel"
| "resolve_forks x (Suc n) assumptions func =
     (\<lambda>k. case func assumptions k of
        (ForkOn branch_cond, k') \<Rightarrow>
          bnd (resolve_forks x n (EAll x [assumptions, branch_cond]) func) (\<lambda>r1.
          bnd (resolve_forks x n (EAll x [assumptions, ENot x branch_cond]) func) (\<lambda>r2.
            ret (cond x branch_cond r1 r2))) k'
      | (r, k') \<Rightarrow> (r, k'))"

text \<open>The decorator \<^verbatim>\<open>dbg\<close> of \<^verbatim>\<open>bag_delta\<close>: it rejects a removed part of size over 100.\<close>

definition dbg :: "deps \<Rightarrow> (exp \<times> exp) M \<Rightarrow> (exp \<times> exp) M" where
  "dbg x m = bnd m (\<lambda>res. if exp_size x (snd res) > 100 then raise ValueError else ret res)"

text \<open>The first two tests of \<^verbatim>\<open>bag_delta\<close> after the state variable: a map or a filter becomes a flat-map.\<close>

fun rewrite_map_filter :: "deps \<Rightarrow> exp \<Rightarrow> exp" where
  "rewrite_map_filter x (EMap e a ta b t) = EFlatMap e a ta (ESingleton b t) t"
| "rewrite_map_filter x (EFilter e a ta b t) =
     EFlatMap e a ta (cond x b (ESingleton (EVar a ta) t) (EEmptyList t)) t"
| "rewrite_map_filter x e = e"

fun is_bag_or_set :: "ty \<Rightarrow> bool" where
  "is_bag_or_set (TBag t) = True"
| "is_bag_or_set (TSet t) = True"
| "is_bag_or_set t = False"

text \<open>\<open>as_argm\<close>: an \<^verbatim>\<open>EArgMin\<close> (\<open>True\<close>) or \<^verbatim>\<open>EArgMax\<close> (\<open>False\<close>); \<open>mk_argm\<close> is \<^verbatim>\<open>type(e)(...)\<close>.\<close>

fun as_argm :: "exp \<Rightarrow> (bool \<times> exp \<times> lam \<times> ty) option" where
  "as_argm (EArgMin e a ta b t) = Some (True, e, ELambda a ta b, t)"
| "as_argm (EArgMax e a ta b t) = Some (False, e, ELambda a ta b, t)"
| "as_argm e = None"

fun mk_argm :: "bool \<Rightarrow> exp \<Rightarrow> lam \<Rightarrow> ty \<Rightarrow> exp" where
  "mk_argm is_min e (ELambda a ta b) t = (if is_min then EArgMin e a ta b t else EArgMax e a ta b t)"

definition print_eval :: "deps \<Rightarrow> exp \<Rightarrow> model option \<Rightarrow> unit M" where
  "print_eval x e m = (case eval_print x e m of None \<Rightarrow> ret () | Some z \<Rightarrow> raise z)"

text \<open>The shapes \<^verbatim>\<open>(e - d) + n\<close> and \<^verbatim>\<open>e + n\<close> that \<^verbatim>\<open>bag_delta\<close> reads a delta from.\<close>

definition shape_minus_plus :: "deps \<Rightarrow> exp \<Rightarrow> exp \<Rightarrow> (exp \<times> exp) option" where
  "shape_minus_plus x new_e e =
     (case as_plus new_e of
        Some (p1, p2, tp) \<Rightarrow>
          (case as_minus p1 of
             Some (m1, m2, tm) \<Rightarrow> if alpha_equivalent x m1 e then Some (p2, m2) else None
           | None \<Rightarrow> None)
      | None \<Rightarrow> None)"

definition shape_plus :: "deps \<Rightarrow> exp \<Rightarrow> exp \<Rightarrow> exp option" where
  "shape_plus x new_e e =
     (case as_plus new_e of
        Some (p1, p2, tp) \<Rightarrow> if alpha_equivalent x p1 e then Some p2 else None
      | None \<Rightarrow> None)"

text \<open>
  What \<^verbatim>\<open>better_mutate\<close> prints before it gives up on an \<^verbatim>\<open>argmin\<close> or \<^verbatim>\<open>argmax\<close>: it looks for
  a model with more than one removal and evaluates four expressions in it. The printing is
  not modelled; an exception of the evaluations is.
\<close>

definition diagnose :: "deps \<Rightarrow> exp \<Rightarrow> exp \<Rightarrow> exp \<Rightarrow> stm \<Rightarrow> ctxt \<Rightarrow> exp \<Rightarrow> unit M" where
  "diagnose x e_e to_add to_del op context assumptions =
     (let model = minimal_model x
            (EAll x [assumptions, ENot x (ELe x (ELen x to_del) ONE)]) 4 context
      in
      bnd (print_eval x to_del model) (\<lambda>u1.
      bnd (print_eval x to_add model) (\<lambda>u2.
      bnd (lift (to_bag e_e)) (\<lambda>b1.
      bnd (mutate x e_e op) (\<lambda>m2.
      bnd (lift (to_bag m2)) (\<lambda>b2.
      bnd (print_eval x (exp_minus x b1 b2) model) (\<lambda>u3.
      bnd (mutate x e_e op) (\<lambda>m3.
      bnd (lift (to_bag m3)) (\<lambda>b3.
      bnd (lift (to_bag e_e)) (\<lambda>b4.
        print_eval x (exp_minus x b3 b4) model))))))))))"

text \<open>
  The bodies of \<^verbatim>\<open>bag_delta\<close>, \<^verbatim>\<open>better_mutate\<close> and \<^verbatim>\<open>became_bool\<close>. Each is written once, with
  the functions it calls as arguments of the same names; the recursive definition after them
  passes the functions themselves, one level of depth lower.
\<close>

definition bag_delta_body ::
  "deps \<Rightarrow> nat \<Rightarrow> (exp \<Rightarrow> ctxt \<Rightarrow> stm \<Rightarrow> exp \<Rightarrow> (exp \<times> exp) M) \<Rightarrow> (exp \<Rightarrow> ctxt \<Rightarrow> stm \<Rightarrow> exp \<Rightarrow> exp M) \<Rightarrow> (exp \<Rightarrow> ctxt \<Rightarrow> stm \<Rightarrow> bool \<Rightarrow> exp \<Rightarrow> exp M)
     \<Rightarrow> exp \<Rightarrow> ctxt \<Rightarrow> stm \<Rightarrow> exp \<Rightarrow> (exp \<times> exp) M" where
  "bag_delta_body x n checked_bag_delta better_mutate became_bool e0 context s assumptions =
     (let empty = EEmptyList (type_of e0); e = rewrite_map_filter x e0 in
      case e of
        EStateVar e1 t \<Rightarrow> checked_bag_delta e1 context s assumptions
      | EFlatMap xs a ta body t \<Rightarrow>
          bnd (fresh x ta None []) (\<lambda>argn.
          let arg = EVar argn ta;
              f = ELambda a ta body;
              func_body = apply_to x f arg
          in
          bnd (checked_bag_delta xs context s assumptions) (\<lambda>(added_xs, removed_xs).
          let inner_context = UnderBinder context arg xs RUNTIME_POOL in
          bnd (resolve_forks x n assumptions (\<lambda>a.
                 bnd (checked_bag_delta func_body inner_context s a) (\<lambda>p. ret (fst p))))
            (\<lambda>added_ys.
          bnd (resolve_forks x n assumptions (\<lambda>a.
                 bnd (checked_bag_delta func_body inner_context s a) (\<lambda>p. ret (snd p))))
            (\<lambda>removed_ys.
          bnd (mutate x func_body s) (\<lambda>new_body.
          bnd (lift (bag_subtract x context assumptions xs removed_xs)) (\<lambda>post_remove.
          bnd (lift (flatmap x context assumptions removed_xs f)) (\<lambda>r1.
          bnd (lift (flatmap x context assumptions post_remove (ELambda argn ta removed_ys)))
            (\<lambda>r2.
          bnd (lift (flatmap x context assumptions added_xs (ELambda argn ta new_body))) (\<lambda>a1.
          bnd (lift (flatmap x context assumptions post_remove (ELambda argn ta added_ys)))
            (\<lambda>a2.
          let removed0 = bag_union r1 r2;
              added0 = bag_union a1 a2;
              same = alpha_equivalent x added0 removed0;
              added = (if same then empty else added0);
              removed = (if same then empty else removed0)
          in
          bnd (lift (bag_intersection x context assumptions removed added)) (\<lambda>i.
          bnd (lift (bag_subtract x context assumptions added i)) (\<lambda>ra.
          bnd (lift (bag_subtract x context assumptions removed i)) (\<lambda>rr.
            ret (ra, rr))))))))))))))
      | EBinOp e1 op e2 t \<Rightarrow>
          if op = BPlus then
            bnd (checked_bag_delta e1 context s assumptions) (\<lambda>(n1, d1).
            bnd (checked_bag_delta e2 context s assumptions) (\<lambda>(n2, d2).
              ret (bag_union n1 n2, bag_union d1 d2)))
          else if op = BMinus then
            bnd (checked_bag_delta e1 context s assumptions) (\<lambda>(n1, d1).
            bnd (checked_bag_delta e2 context s assumptions) (\<lambda>(n2, d2).
              ret (bag_union n1 d2, bag_union d1 n2)))
          else raise NotImplementedError
      | EUnaryOp op e1 t \<Rightarrow>
          if op = UDistinct then
            bnd (checked_bag_delta e1 context s assumptions) (\<lambda>(n0, d0).
            let n1 = edistinct n0; d1 = edistinct d0 in
            if \<not> definitely (are_unique e1) then
              bnd (lift (elem_type t)) (\<lambda>te.
              bnd (fresh x te None []) (\<lambda>v.
              bnd (lift (equal x (ECountIn x (EVar v te) e1) ONE)) (\<lambda>p.
                ret (n1, efilter x (edistinct d1) (ELambda v te p)))))
            else ret (n1, d1))
          else raise NotImplementedError
      | ESingleton e1 t \<Rightarrow>
          bnd (lift (statevar e1)) (\<lambda>sv.
          bnd (better_mutate sv context s assumptions) (\<lambda>new_e.
            if \<not> retypecheck x new_e then raise AssertionError
            else lift (fork x context assumptions (EEq x e1 new_e)
                         (empty, empty) (ESingleton new_e t, e))))
      | EEmptyList t \<Rightarrow> ret (empty, empty)
      | ECond c a b t \<Rightarrow>
          bnd (mutate x c s) (\<lambda>new_cond.
          if alpha_equivalent x new_cond c then
            bnd (checked_bag_delta a context s assumptions) (\<lambda>(n1, d1).
            bnd (checked_bag_delta b context s assumptions) (\<lambda>(n2, d2).
              ret (cond x c n1 n2, cond x c d1 d2)))
          else
            bnd (became_bool c context s False assumptions) (\<lambda>bf1.
            bnd (lift (bag_subtract x context assumptions b a)) (\<lambda>s1.
            bnd (became_bool c context s True assumptions) (\<lambda>bt2.
            bnd (lift (bag_subtract x context assumptions a b)) (\<lambda>s2.
            bnd (became_bool c context s False assumptions) (\<lambda>bf3.
            bnd (lift (bag_subtract x context assumptions a b)) (\<lambda>s3.
            bnd (became_bool c context s True assumptions) (\<lambda>bt4.
            bnd (lift (bag_subtract x context assumptions b a)) (\<lambda>s4.
            let case1 = cond x bf1 s1 empty;
                case2 = cond x bt2 s2 empty;
                case3 = cond x bf3 s3 empty;
                case4 = cond x bt4 s4 empty
            in ret (cond x c case1 case2, cond x c case3 case4))))))))))
      | EVar v t \<Rightarrow>
          bnd (mutate x e s) (\<lambda>new_e.
            case shape_minus_plus x new_e e of
              Some nd \<Rightarrow> ret nd
            | None \<Rightarrow>
            (case shape_plus x new_e e of
              Some p2 \<Rightarrow> ret (p2, empty)
            | None \<Rightarrow>
              bnd (lift (bag_subtract x context assumptions new_e e)) (\<lambda>r1.
              bnd (lift (bag_subtract x context assumptions e new_e)) (\<lambda>r2.
                ret (r1, r2)))))
      | _ \<Rightarrow> raise NotImplementedError)"

definition better_mutate_body ::
  "deps \<Rightarrow> (exp \<Rightarrow> ctxt \<Rightarrow> stm \<Rightarrow> exp \<Rightarrow> (exp \<times> exp) M) \<Rightarrow> (exp \<Rightarrow> ctxt \<Rightarrow> stm \<Rightarrow> exp \<Rightarrow> exp M) \<Rightarrow> (exp \<Rightarrow> ctxt \<Rightarrow> stm \<Rightarrow> bool \<Rightarrow> exp \<Rightarrow> exp M)
     \<Rightarrow> exp \<Rightarrow> ctxt \<Rightarrow> stm \<Rightarrow> exp \<Rightarrow> exp M" where
  "better_mutate_body x checked_bag_delta better_mutate became_bool esv context op assumptions =
     (case esv of
        EStateVar e te \<Rightarrow>
          bnd (mutate x e op) (\<lambda>m.
          if alpha_equivalent x e m then ret esv
          else if is_bag_or_set (type_of e) then
            bnd (checked_bag_delta e context op assumptions) (\<lambda>(add, remove).
            bnd (lift (bag_subtract x context assumptions e remove)) (\<lambda>r.
              ret (bag_union r add)))
          else
          (case as_argm e of
            Some (is_min, e_e, e_f, t) \<Rightarrow>
              bnd (mutate x (exp_of_lam e_f) op) (\<lambda>mf.
              if alpha_equivalent x (exp_of_lam e_f) mf then
                bnd (checked_bag_delta (EStateVar e_e (type_of e_e)) context op assumptions)
                  (\<lambda>(to_add, to_del).
                let h0 = to_heap x e;
                    h = EStateVar h0 (type_of h0);
                    second_min = EHeapPeek2 h (EStateVar (ELen x e_e) TInt) t
                in
                bnd (fresh x (type_of to_del) (Some ''removed'') []) (\<lambda>v.
                bnd (if is_EEmptyList to_del \<or> valid x (EImplies x assumptions (EEmpty x to_del))
                       then ret esv
                     else if valid x (EImplies x assumptions (EEq x (ELen x to_del) ONE))
                       then ret (ECond (EEq x (EUnaryOp UThe to_del t) esv) second_min esv
                                   (type_of e_e))
                     else
                       bnd (diagnose x e_e to_add to_del op context assumptions) (\<lambda>u.
                         raise (NotEfficient e)))
                  (\<lambda>min_after_del.
                    if definitely (is_empty to_add) then ret min_after_del
                    else ret (mk_argm is_min
                                (bag_union
                                   (ESingleton min_after_del (TBag (type_of min_after_del)))
                                   to_add)
                                e_f t))))
              else raise (NotEfficient e))
          | None \<Rightarrow>
          (case e of
            EUnaryOp uo e1 t \<Rightarrow>
              if uo = UExists then
                bnd (checked_bag_delta e1 context op assumptions) (\<lambda>(add, remove).
                bnd (lift (len_of x e1)) (\<lambda>l0.
                bnd (lift (len_of x add)) (\<lambda>l1.
                bnd (lift (len_of x remove)) (\<lambda>l2.
                  ret (EGt x (exp_plus x (EStateVar l0 TInt) l1) l2)))))
              else if uo = UNot then
                bnd (lift (statevar e1)) (\<lambda>sv.
                bnd (better_mutate sv context op assumptions) (\<lambda>new_val.
                  ret (ENot x new_val)))
              else raise NotImplementedError
          | ESingleton e1 t \<Rightarrow>
              bnd (lift (statevar e1)) (\<lambda>sv.
              bnd (better_mutate sv context op T) (\<lambda>r.
                ret (ESingleton r t)))
          | EBinOp e1 bo e2 t \<Rightarrow>
              bnd (lift (statevar e1)) (\<lambda>sv1.
              bnd (better_mutate sv1 context op assumptions) (\<lambda>r1.
              bnd (lift (statevar e2)) (\<lambda>sv2.
              bnd (better_mutate sv2 context op assumptions) (\<lambda>r2.
                ret (EBinOp r1 bo r2 t)))))
          | ECall fn args t \<Rightarrow>
              bnd (mmap (\<lambda>a. bnd (lift (statevar a)) (\<lambda>sv.
                             better_mutate sv context op assumptions)) args) (\<lambda>rs.
                ret (ECall fn rs t))
          | ECond c a b t \<Rightarrow>
              bnd (lift (statevar a)) (\<lambda>sva.
              bnd (better_mutate sva context op assumptions) (\<lambda>then_branch.
              bnd (lift (statevar b)) (\<lambda>svb.
              bnd (better_mutate svb context op assumptions) (\<lambda>else_branch.
              bnd (became_bool c context op False assumptions) (\<lambda>bf.
              bnd (became_bool c context op True assumptions) (\<lambda>bt.
                ret (cond x c (cond x bf else_branch then_branch)
                                (cond x bt then_branch else_branch))))))))
          | _ \<Rightarrow> raise NotImplementedError)))
      | _ \<Rightarrow> raise TypeError)"

definition became_bool_body ::
  "deps \<Rightarrow> (exp \<Rightarrow> ctxt \<Rightarrow> stm \<Rightarrow> exp \<Rightarrow> (exp \<times> exp) M) \<Rightarrow> (exp \<Rightarrow> ctxt \<Rightarrow> stm \<Rightarrow> bool \<Rightarrow> exp \<Rightarrow> exp M)
     \<Rightarrow> exp \<Rightarrow> ctxt \<Rightarrow> stm \<Rightarrow> bool \<Rightarrow> exp \<Rightarrow> exp M" where
  "became_bool_body x bag_delta became_bool e context s val assumptions =
     bnd (mutate x e s) (\<lambda>m.
     if alpha_equivalent x e m then ret F
     else
     (case e of
        EUnaryOp uo e1 t \<Rightarrow>
          if uo = UNot then became_bool e1 context s (\<not> val) assumptions
          else if uo = UExists then
            bnd (bag_delta e1 context s assumptions) (\<lambda>(added, removed).
              if val then lift (exists x added)
              else
                bnd (lift (len_of x removed)) (\<lambda>lr.
                bnd (lift (len_of x added)) (\<lambda>la.
                bnd (lift (len_of x e1)) (\<lambda>le.
                  lift (ge x lr (ESum x [la, le]))))))
          else raise NotImplementedError
      | EBinOp e1 bo e2 t \<Rightarrow>
          if bo = BAnd then
            (if val then raise NotImplementedError
             else
               bnd (became_bool e1 context s val assumptions) (\<lambda>r1.
               bnd (became_bool e2 context s val assumptions) (\<lambda>r2.
                 ret (EAny x [r1, r2]))))
          else if bo = BOr then
            (if val then
               bnd (became_bool e1 context s val assumptions) (\<lambda>r1.
               bnd (became_bool e2 context s val assumptions) (\<lambda>r2.
                 ret (EAny x [r1, r2])))
             else
               bnd (became_bool e1 context s val assumptions) (\<lambda>r1.
               bnd (became_bool e2 context s val assumptions) (\<lambda>r2.
               bnd (became_bool e1 context s val assumptions) (\<lambda>r3.
               bnd (became_bool e2 context s val assumptions) (\<lambda>r4.
                 ret (cond x e1 (cond x e2 (EAll x [r1, r2]) r3) r4))))))
          else raise NotImplementedError
      | _ \<Rightarrow> raise NotImplementedError))"

function checked_bag_delta :: "deps \<Rightarrow> nat \<Rightarrow> exp \<Rightarrow> ctxt \<Rightarrow> stm \<Rightarrow> exp \<Rightarrow> (exp \<times> exp) M"
  and bag_delta :: "deps \<Rightarrow> nat \<Rightarrow> exp \<Rightarrow> ctxt \<Rightarrow> stm \<Rightarrow> exp \<Rightarrow> (exp \<times> exp) M"
  and better_mutate :: "deps \<Rightarrow> nat \<Rightarrow> exp \<Rightarrow> ctxt \<Rightarrow> stm \<Rightarrow> exp \<Rightarrow> exp M"
  and became_bool :: "deps \<Rightarrow> nat \<Rightarrow> exp \<Rightarrow> ctxt \<Rightarrow> stm \<Rightarrow> bool \<Rightarrow> exp \<Rightarrow> exp M"
where
  "checked_bag_delta x 0 e context s assumptions = raise OutOfFuel"
| "checked_bag_delta x (Suc n) e context s assumptions = bag_delta x n e context s assumptions"
| "bag_delta x 0 e context s assumptions = raise OutOfFuel"
| "bag_delta x (Suc n) e context s assumptions =
     dbg x (bag_delta_body x n
              (\<lambda>e' c' s' a'. checked_bag_delta x n e' c' s' a')
              (\<lambda>e' c' s' a'. better_mutate x n e' c' s' a')
              (\<lambda>e' c' s' v' a'. became_bool x n e' c' s' v' a')
              e context s assumptions)"
| "better_mutate x 0 e context op assumptions = raise OutOfFuel"
| "better_mutate x (Suc n) e context op assumptions =
     better_mutate_body x
       (\<lambda>e' c' s' a'. checked_bag_delta x n e' c' s' a')
       (\<lambda>e' c' s' a'. better_mutate x n e' c' s' a')
       (\<lambda>e' c' s' v' a'. became_bool x n e' c' s' v' a')
       e context op assumptions"
| "became_bool x 0 e context s val assumptions = raise OutOfFuel"
| "became_bool x (Suc n) e context s val assumptions =
     became_bool_body x
       (\<lambda>e' c' s' a'. bag_delta x n e' c' s' a')
       (\<lambda>e' c' s' v' a'. became_bool x n e' c' s' v' a')
       e context s val assumptions"
  by pat_completeness auto
termination
  by (relation "measure (case_sum
        (case_sum (\<lambda>(x, n, r). n) (\<lambda>(x, n, r). n))
        (case_sum (\<lambda>(x, n, r). n) (\<lambda>(x, n, r). n)))") auto



fun as_not :: "exp \<Rightarrow> exp option" where
  "as_not (EUnaryOp UNot e t) = Some e"
| "as_not e = None"

lemma as_not_SomeD: "as_not e = Some a \<Longrightarrow> \<exists>t. e = EUnaryOp UNot a t"
  by (cases e rule: as_not.cases) auto

function changed :: "deps \<Rightarrow> nat \<Rightarrow> exp \<Rightarrow> ctxt \<Rightarrow> stm \<Rightarrow> exp \<Rightarrow> exp M" where
  "changed x n e context s assumptions =
     bnd (mutate x e s) (\<lambda>m.
     if alpha_equivalent x e m then ret F
     else
     (case as_not e of
        Some e1 \<Rightarrow> changed x n e1 context s assumptions
      | None \<Rightarrow>
      (case as_singleton e of
        Some (e1, t) \<Rightarrow> changed x n e1 context s assumptions
      | None \<Rightarrow>
        bnd (better_mutate x n (EStateVar e (type_of e)) context s assumptions) (\<lambda>r.
          ret (ENe x e r)))))"
  by pat_completeness auto
termination
  by (relation "measure (\<lambda>(x, n, e, r). size e)")
     (auto dest!: as_not_SomeD as_singleton_SomeD)

declare changed.simps [simp del]

definition real_better_mutate :: "deps \<Rightarrow> nat \<Rightarrow> exp \<Rightarrow> ctxt \<Rightarrow> stm \<Rightarrow> exp \<Rightarrow> exp M" where
  "real_better_mutate x n e context op assumptions =
     resolve_forks x n assumptions (\<lambda>a. better_mutate x n e context op a)"

section \<open>Update sketches\<close>

fun map_value_type :: "ty \<Rightarrow> ty result" where
  "map_value_type (TMap tk tv) = Ok tv"
| "map_value_type t = Raise AttributeError"

fun value_at :: "deps \<Rightarrow> exp \<Rightarrow> exp \<Rightarrow> exp result" where
  "value_at x (EMakeMap2 e a ta b t) k =
     rbind (map_value_type t) (\<lambda>tv.
       Ok (ECond (EIn x k e) (apply_to x (ELambda a ta b) k) (construct_value x tv) tv))"
| "value_at x (ECond c m1 m2 t) k =
     rbind (value_at x m1 k) (\<lambda>r1.
     rbind (value_at x m2 k) (\<lambda>r2.
     rbind (map_value_type t) (\<lambda>tv. Ok (ECond c r1 r2 tv))))"
| "value_at x m k = rbind (map_value_type (type_of m)) (\<lambda>tv. Ok (EMapGet m k tv))"

fun var_id_type :: "exp \<Rightarrow> string \<times> ty" where
  "var_id_type (EVar i t) = (i, t)"
| "var_id_type e = ([], type_of e)"

text \<open>
  The local function \<^verbatim>\<open>make_subgoal\<close> of \<^verbatim>\<open>sketch_update\<close>. It returns the expression that
  stands for the subgoal and the queries it appended to \<^verbatim>\<open>subgoals\<close> (one or none).
\<close>

definition make_subgoal ::
  "deps \<Rightarrow> exp list \<Rightarrow> exp list \<Rightarrow> exp \<Rightarrow> exp list \<Rightarrow> string option \<Rightarrow> (exp \<times> query list) M" where
  "make_subgoal x ctx assumptions e a docstring =
     (if skip_stateless_synthesis x \<and> \<not> list_ex (\<lambda>v. list_ex (exp_eq x v) ctx) (free_vars x e)
      then ret (e, [])
      else (\<lambda>k. case fresh_name x k ''query'' of
              (query_name, k') \<Rightarrow>
                let query0 = Query query_name Internal [] (assumptions @ a) e docstring;
                    query_vars = filter (\<lambda>v. \<not> list_ex (exp_eq x v) ctx)
                                   (query_free_vars x query0);
                    query = Query query_name Internal (map var_id_type query_vars)
                                  (assumptions @ a) e docstring
                in (Ok (ECall query_name query_vars (type_of e), [query]), k')))"

lemma bnd_cong [fundef_cong]:
  assumes "m = m'" and "\<And>v k k'. m' k = (Ok v, k') \<Longrightarrow> f v k' = f' v k'"
  shows "bnd m f = bnd m' f'"
proof (rule ext)
  fix k
  obtain r k' where mk: "m' k = (r, k')" by (cases "m' k")
  show "bnd m f k = bnd m' f' k"
  proof (cases r)
    case (Ok v)
    with mk assms(2)[of k v k'] show ?thesis by (simp add: bnd_def assms(1))
  qed (simp_all add: bnd_def assms(1) mk)
qed

lemma mmap_cong [fundef_cong]:
  assumes "xs = ys" and "\<And>a. a \<in> set ys \<Longrightarrow> f a = g a"
  shows "mmap f xs = mmap g ys"
proof -
  have "mmap f ys = mmap g ys" using assms(2)
  proof (induction ys)
    case Nil
    show ?case by simp
  next
    case (Cons a as)
    have "f a = g a" using Cons.prems by simp
    moreover have "mmap f as = mmap g as" using Cons by simp
    ultimately show ?case by simp
  qed
  with assms(1) show ?thesis by simp
qed

lemma size_nth_lt_TTuple: "i < length ts \<Longrightarrow> size (ts ! i) < size (TTuple ts)"
proof -
  assume "i < length ts"
  then have "ts ! i \<in> set ts" by simp
  then have "size (ts ! i) \<le> size_list size ts" by (simp add: size_list_estimation')
  then show ?thesis by simp
qed

lemma size_snd_lt_list: "p \<in> set fs \<Longrightarrow> size (snd p) < Suc (size_list (size_prod (\<lambda>_. 0) size) fs)"
  for p :: "string \<times> ty"
  by (induction fs) (auto simp: less_Suc_eq)

lemma size_nth_lt_TRecord: "i < length fs \<Longrightarrow> size (snd (fs ! i)) < size (TRecord fs)"
  using size_snd_lt_list[of "fs ! i" fs] by simp


text \<open>
  The body of \<^verbatim>\<open>sketch_update\<close>, with the local function \<^verbatim>\<open>recurse\<close> as an argument; it is
  only ever applied to an lvalue of a type that is a part of the type of \<^verbatim>\<open>lval\<close>.
\<close>

definition sketch_update_body ::
  "deps \<Rightarrow> (exp \<Rightarrow> exp \<Rightarrow> exp \<Rightarrow> exp list \<Rightarrow> exp list \<Rightarrow> exp list \<Rightarrow> (stm \<times> query list) M)
     \<Rightarrow> exp \<Rightarrow> exp \<Rightarrow> exp \<Rightarrow> exp list \<Rightarrow> exp list \<Rightarrow> exp list \<Rightarrow> (stm \<times> query list) M" where
  "sketch_update_body x recurse lval old_value new_value0 ctx assumptions invariants =
     (if valid x (EImplies x (EAll x (assumptions @ invariants)) (EEq x old_value new_value0))
      then ret (SNoOp, [])
      else
      (let new_value = strip_EStateVar x new_value0; t = type_of lval in
       if is_bag_or_set t then
         bnd (make_subgoal x ctx assumptions (EBinOp new_value BMinus old_value t) []
                (Some (''additions to '' @ pprint x lval))) (\<lambda>(to_add, sg1).
         bnd (make_subgoal x ctx assumptions (EBinOp old_value BMinus new_value t) []
                (Some (''deletions from '' @ pprint x lval))) (\<lambda>(to_del, sg2).
         bnd (lift (elem_type t)) (\<lambda>te.
         bnd (fresh x te None []) (\<lambda>vn.
           let v = EVar vn te in
           ret (seq x [SForEach v to_del (SCall lval ''remove'' [v]),
                       SForEach v to_add (SCall lval ''add'' [v])],
                sg1 @ sg2)))))
       else if is_numeric x t \<and> update_numbers_with_deltas x then
         bnd (make_subgoal x ctx assumptions (EBinOp new_value BMinus old_value t) []
                (Some (''delta for '' @ pprint x lval))) (\<lambda>(change, sg).
           ret (SAssign lval (EBinOp lval BPlus change t), sg))
       else
       (case t of
          TTuple ts \<Rightarrow>
            bnd (mmap (\<lambda>i. recurse (ETupleGet lval i (ts ! i))
                                (ETupleGet old_value i (ts ! i)) (ETupleGet new_value i (ts ! i))
                                ctx assumptions invariants)
                   [0 ..< length ts]) (\<lambda>rs.
              ret (seq x (map fst rs), concat (map snd rs)))
        | TRecord flds \<Rightarrow>
            bnd (mmap (\<lambda>i. recurse (EGetField lval (fst (flds ! i)) (snd (flds ! i)))
                                (EGetField old_value (fst (flds ! i)) (snd (flds ! i)))
                                (EGetField new_value (fst (flds ! i)) (snd (flds ! i)))
                                ctx assumptions invariants)
                   [0 ..< length flds]) (\<lambda>rs.
              ret (seq x (map fst rs), concat (map snd rs)))
        | TMap tk tv \<Rightarrow>
            bnd (fresh x tk None []) (\<lambda>kn.
            bnd (fresh x tv None []) (\<lambda>vn.
            let k = EVar kn tk; v = EVar vn tv; key_bag = TBag tk;
                old_keys = EMapKeys old_value key_bag;
                new_keys = EMapKeys new_value key_bag;
                deleted_keys = EBinOp old_keys BMinus new_keys key_bag
            in
            bnd (make_subgoal x ctx assumptions deleted_keys []
                   (Some (''keys removed from '' @ pprint x lval))) (\<lambda>(dk, sg1).
            let s1 = SForEach k dk (SMapDel lval k) in
            bnd (lift (value_at x old_value k)) (\<lambda>old_at1.
            bnd (lift (value_at x new_value k)) (\<lambda>new_at1.
            let new_or_modified =
                  EFilter new_keys kn tk
                    (EAny x [ENot x (EIn x k old_keys), ENot x (EEq x old_at1 new_at1)]) key_bag
            in
            bnd (lift (value_at x old_value k)) (\<lambda>old_at2.
            bnd (lift (value_at x new_value k)) (\<lambda>new_at2.
            bnd (lift (value_at x old_value k)) (\<lambda>old_at3.
            bnd (recurse v old_at2 new_at2 ctx
                   (assumptions @ [EIn x k new_or_modified, EEq x v old_at3]) invariants)
              (\<lambda>(update_value, sg2).
            bnd (make_subgoal x ctx assumptions new_or_modified []
                   (Some (''new or modified keys from '' @ pprint x lval))) (\<lambda>(nm, sg3).
            let s2 = SForEach k nm (SMapUpdate lval k v update_value) in
              ret (SSeq s1 s2, sg1 @ sg2 @ sg3)))))))))))
        | _ \<Rightarrow>
            bnd (make_subgoal x ctx assumptions new_value []
                   (Some (''new value for '' @ pprint x lval))) (\<lambda>(nv, sg).
              ret (SAssign lval nv, sg)))))"

lemma sketch_update_body_cong [fundef_cong]:
  assumes "\<And>l ov nv c a i. size (type_of l) < size (type_of lval)
             \<Longrightarrow> r l ov nv c a i = r' l ov nv c a i"
  shows "sketch_update_body x r lval old_value new_value ctx assumptions invariants
       = sketch_update_body x r' lval old_value new_value ctx assumptions invariants"
proof (cases "type_of lval")
  case (TTuple ts)
  have small: "\<And>i. i < length ts \<Longrightarrow> size (ts ! i) < size (type_of lval)"
    using size_nth_lt_TTuple TTuple by metis
  have "mmap (\<lambda>i. r (ETupleGet lval i (ts ! i)) (ETupleGet old_value i (ts ! i))
                     (ETupleGet (strip_EStateVar x new_value) i (ts ! i)) ctx assumptions invariants)
          [0 ..< length ts]
      = mmap (\<lambda>i. r' (ETupleGet lval i (ts ! i)) (ETupleGet old_value i (ts ! i))
                     (ETupleGet (strip_EStateVar x new_value) i (ts ! i)) ctx assumptions invariants)
          [0 ..< length ts]"
  proof (rule mmap_cong)
    fix a assume "a \<in> set [0 ..< length ts]"
    then have "size (type_of (ETupleGet lval a (ts ! a))) < size (type_of lval)"
      using small by simp
    then show "r (ETupleGet lval a (ts ! a)) (ETupleGet old_value a (ts ! a))
                 (ETupleGet (strip_EStateVar x new_value) a (ts ! a)) ctx assumptions invariants
             = r' (ETupleGet lval a (ts ! a)) (ETupleGet old_value a (ts ! a))
                 (ETupleGet (strip_EStateVar x new_value) a (ts ! a)) ctx assumptions invariants"
      by (rule assms)
  qed simp
  then show ?thesis
    by (simp add: sketch_update_body_def TTuple Let_def)
next
  case (TRecord fs)
  have small: "\<And>i. i < length fs \<Longrightarrow> size (snd (fs ! i)) < size (type_of lval)"
    using size_nth_lt_TRecord TRecord by metis
  have "mmap (\<lambda>i. r (EGetField lval (fst (fs ! i)) (snd (fs ! i)))
                     (EGetField old_value (fst (fs ! i)) (snd (fs ! i)))
                     (EGetField (strip_EStateVar x new_value) (fst (fs ! i)) (snd (fs ! i)))
                     ctx assumptions invariants)
          [0 ..< length fs]
      = mmap (\<lambda>i. r' (EGetField lval (fst (fs ! i)) (snd (fs ! i)))
                     (EGetField old_value (fst (fs ! i)) (snd (fs ! i)))
                     (EGetField (strip_EStateVar x new_value) (fst (fs ! i)) (snd (fs ! i)))
                     ctx assumptions invariants)
          [0 ..< length fs]"
  proof (rule mmap_cong)
    fix a assume "a \<in> set [0 ..< length fs]"
    then have "size (type_of (EGetField lval (fst (fs ! a)) (snd (fs ! a)))) < size (type_of lval)"
      using small by simp
    then show "r (EGetField lval (fst (fs ! a)) (snd (fs ! a)))
                 (EGetField old_value (fst (fs ! a)) (snd (fs ! a)))
                 (EGetField (strip_EStateVar x new_value) (fst (fs ! a)) (snd (fs ! a)))
                 ctx assumptions invariants
             = r' (EGetField lval (fst (fs ! a)) (snd (fs ! a)))
                 (EGetField old_value (fst (fs ! a)) (snd (fs ! a)))
                 (EGetField (strip_EStateVar x new_value) (fst (fs ! a)) (snd (fs ! a)))
                 ctx assumptions invariants"
      by (rule assms)
  qed simp
  then show ?thesis
    by (simp add: sketch_update_body_def TRecord Let_def)
next
  case (TMap tk tv)
  have "\<And>v ov nv a. r (EVar v tv) ov nv ctx a invariants = r' (EVar v tv) ov nv ctx a invariants"
    by (rule assms) (simp add: TMap)
  then show ?thesis
    by (simp add: sketch_update_body_def TMap Let_def)
qed (simp_all add: sketch_update_body_def Let_def)

function sketch_update ::
  "deps \<Rightarrow> exp \<Rightarrow> exp \<Rightarrow> exp \<Rightarrow> exp list \<Rightarrow> exp list \<Rightarrow> exp list \<Rightarrow> (stm \<times> query list) M" where
  "sketch_update x lval old_value new_value ctx assumptions invariants =
     sketch_update_body x (\<lambda>l ov nv c a i. sketch_update x l ov nv c a i)
       lval old_value new_value ctx assumptions invariants"
  by pat_completeness auto
termination
  by (relation "measure (\<lambda>(x, lval, r). size (type_of lval))") auto

declare sketch_update.simps [simp del]

section \<open>A plain instance of the outside modules\<close>

text \<open>
  Modelled from the spec: the modules below are not part of the given sources, and the
  theorems above the instance hold for every value of \<open>deps\<close>. The instance \<open>plain\<close> gives each
  field its plain meaning, to run the functions on concrete inputs: substitution avoids
  capture, expressions are equal when their trees are equal up to type annotations,
  \<^verbatim>\<open>simplify\<close> does nothing, and the oracle proves an implication only when its conclusion is
  \<open>T\<close>, is one of the conjuncts of its hypothesis, or equates an expression with itself (wrapped
  as a state variable or not). Alpha-equivalence in this instance does not rename bound
  variables, and the rewriter of \<^verbatim>\<open>replace_get_value\<close> is left out (an assignment through
  a handle raises).
\<close>

fun children :: "exp \<Rightarrow> exp list" where
  "children (EVar v t) = []"
| "children (ENum n t) = []"
| "children (EBool b) = []"
| "children (EUnaryOp u e t) = [e]"
| "children (EBinOp a b c t) = [a, c]"
| "children (ECond c a b t) = [c, a, b]"
| "children (ECall f xs t) = xs"
| "children (EGetField e f t) = [e]"
| "children (EMakeRecord fs t) = map snd fs"
| "children (ETupleGet e i t) = [e]"
| "children (EEmptyList t) = []"
| "children (ESingleton e t) = [e]"
| "children (EArgMin e a ta b t) = [e, b]"
| "children (EArgMax e a ta b t) = [e, b]"
| "children (EIntersect a b t) = [a, b]"
| "children (ELet e a ta b t) = [e, b]"
| "children (EStateVar e t) = [e]"
| "children (EMap e a ta b t) = [e, b]"
| "children (EFilter e a ta b t) = [e, b]"
| "children (EFlatMap e a ta b t) = [e, b]"
| "children (EMakeMap2 e a ta b t) = [e, b]"
| "children (EMapGet m k t) = [m, k]"
| "children (EMapKeys m t) = [m]"
| "children (EMakeMinHeap e a ta b t) = [e, b]"
| "children (EMakeMaxHeap e a ta b t) = [e, b]"
| "children (EHeapPeek2 h n t) = [h, n]"
| "children (ELambdaExp a ta b) = [b]"

fun map_children :: "(exp \<Rightarrow> exp) \<Rightarrow> exp \<Rightarrow> exp" where
  "map_children f (EVar v t) = EVar v t"
| "map_children f (ENum n t) = ENum n t"
| "map_children f (EBool b) = EBool b"
| "map_children f (EUnaryOp u e t) = EUnaryOp u (f e) t"
| "map_children f (EBinOp a b c t) = EBinOp (f a) b (f c) t"
| "map_children f (ECond c a b t) = ECond (f c) (f a) (f b) t"
| "map_children f (ECall g xs t) = ECall g (map f xs) t"
| "map_children f (EGetField e g t) = EGetField (f e) g t"
| "map_children f (EMakeRecord fs t) = EMakeRecord (map (\<lambda>p. (fst p, f (snd p))) fs) t"
| "map_children f (ETupleGet e i t) = ETupleGet (f e) i t"
| "map_children f (EEmptyList t) = EEmptyList t"
| "map_children f (ESingleton e t) = ESingleton (f e) t"
| "map_children f (EArgMin e a ta b t) = EArgMin (f e) a ta (f b) t"
| "map_children f (EArgMax e a ta b t) = EArgMax (f e) a ta (f b) t"
| "map_children f (EIntersect a b t) = EIntersect (f a) (f b) t"
| "map_children f (ELet e a ta b t) = ELet (f e) a ta (f b) t"
| "map_children f (EStateVar e t) = EStateVar (f e) t"
| "map_children f (EMap e a ta b t) = EMap (f e) a ta (f b) t"
| "map_children f (EFilter e a ta b t) = EFilter (f e) a ta (f b) t"
| "map_children f (EFlatMap e a ta b t) = EFlatMap (f e) a ta (f b) t"
| "map_children f (EMakeMap2 e a ta b t) = EMakeMap2 (f e) a ta (f b) t"
| "map_children f (EMapGet m k t) = EMapGet (f m) (f k) t"
| "map_children f (EMapKeys m t) = EMapKeys (f m) t"
| "map_children f (EMakeMinHeap e a ta b t) = EMakeMinHeap (f e) a ta (f b) t"
| "map_children f (EMakeMaxHeap e a ta b t) = EMakeMaxHeap (f e) a ta (f b) t"
| "map_children f (EHeapPeek2 h n t) = EHeapPeek2 (f h) (f n) t"
| "map_children f (ELambdaExp a ta b) = ELambdaExp a ta (f b)"

lemma size_list_member: "c \<in> set xs \<Longrightarrow> size c < Suc (size_list size xs)"
  for c :: exp
  by (induction xs) auto

lemma size_list_snd_member:
  "p \<in> set fs \<Longrightarrow> size (snd p) < Suc (size_list (size_prod (\<lambda>_. 0) size) fs)"
  for p :: "string \<times> exp"
  by (induction fs) (auto simp: less_Suc_eq)

lemma size_children: "c \<in> set (children e) \<Longrightarrow> size c < size e"
proof (cases e)
  case (ECall f xs t)
  assume "c \<in> set (children e)"
  with ECall show ?thesis using size_list_member[of c xs] by simp
next
  case (EMakeRecord fs t)
  assume "c \<in> set (children e)"
  with EMakeRecord obtain p where "p \<in> set fs" "c = snd p" by auto
  with EMakeRecord show ?thesis using size_list_snd_member[of p fs] by simp
qed auto

lemma map_children_cong [fundef_cong]:
  assumes "e = e'" and "\<And>c. c \<in> set (children e') \<Longrightarrow> f c = g c"
  shows "map_children f e = map_children g e'"
  using assms by (cases e') auto

text \<open>The number of nodes of an expression.\<close>

function node_count :: "exp \<Rightarrow> nat" where
  "node_count e = Suc (sum_list (map node_count (children e)))"
  by pat_completeness auto
termination
  by (relation "measure size") (auto simp: size_children size_list_member dest: size_list_snd_member)

declare node_count.simps [simp del]

function plain_strip_EStateVar :: "exp \<Rightarrow> exp" where
  "plain_strip_EStateVar e =
     (case e of
        EStateVar e1 t \<Rightarrow> plain_strip_EStateVar e1
      | _ \<Rightarrow> map_children plain_strip_EStateVar e)"
  by pat_completeness auto
termination
  by (relation "measure size") (auto simp: size_children size_list_member dest: size_list_snd_member)

declare plain_strip_EStateVar.simps [simp del]

function strip_types :: "exp \<Rightarrow> exp" where
  "strip_types e = with_type (map_children strip_types e) TUntyped"
  by pat_completeness auto
termination
  by (relation "measure size") (auto simp: size_children size_list_member dest: size_list_snd_member)

declare strip_types.simps [simp del]

text \<open>
  A node that binds a variable: the child outside the scope (if any), the variable and its
  type, and the body; \<open>rebuild\<close> puts a node of the same kind together again.
\<close>

fun unbind :: "exp \<Rightarrow> (exp option \<times> string \<times> ty \<times> exp) option" where
  "unbind (EArgMin e a ta b t) = Some (Some e, a, ta, b)"
| "unbind (EArgMax e a ta b t) = Some (Some e, a, ta, b)"
| "unbind (ELet e a ta b t) = Some (Some e, a, ta, b)"
| "unbind (EMap e a ta b t) = Some (Some e, a, ta, b)"
| "unbind (EFilter e a ta b t) = Some (Some e, a, ta, b)"
| "unbind (EFlatMap e a ta b t) = Some (Some e, a, ta, b)"
| "unbind (EMakeMap2 e a ta b t) = Some (Some e, a, ta, b)"
| "unbind (EMakeMinHeap e a ta b t) = Some (Some e, a, ta, b)"
| "unbind (EMakeMaxHeap e a ta b t) = Some (Some e, a, ta, b)"
| "unbind (ELambdaExp a ta b) = Some (None, a, ta, b)"
| "unbind e = None"

fun rebuild :: "exp \<Rightarrow> exp option \<Rightarrow> string \<Rightarrow> exp \<Rightarrow> exp" where
  "rebuild (EArgMin e a ta b t) oe a' b' = EArgMin (case oe of Some c \<Rightarrow> c | None \<Rightarrow> e) a' ta b' t"
| "rebuild (EArgMax e a ta b t) oe a' b' = EArgMax (case oe of Some c \<Rightarrow> c | None \<Rightarrow> e) a' ta b' t"
| "rebuild (ELet e a ta b t) oe a' b' = ELet (case oe of Some c \<Rightarrow> c | None \<Rightarrow> e) a' ta b' t"
| "rebuild (EMap e a ta b t) oe a' b' = EMap (case oe of Some c \<Rightarrow> c | None \<Rightarrow> e) a' ta b' t"
| "rebuild (EFilter e a ta b t) oe a' b' = EFilter (case oe of Some c \<Rightarrow> c | None \<Rightarrow> e) a' ta b' t"
| "rebuild (EFlatMap e a ta b t) oe a' b' = EFlatMap (case oe of Some c \<Rightarrow> c | None \<Rightarrow> e) a' ta b' t"
| "rebuild (EMakeMap2 e a ta b t) oe a' b' = EMakeMap2 (case oe of Some c \<Rightarrow> c | None \<Rightarrow> e) a' ta b' t"
| "rebuild (EMakeMinHeap e a ta b t) oe a' b' =
     EMakeMinHeap (case oe of Some c \<Rightarrow> c | None \<Rightarrow> e) a' ta b' t"
| "rebuild (EMakeMaxHeap e a ta b t) oe a' b' =
     EMakeMaxHeap (case oe of Some c \<Rightarrow> c | None \<Rightarrow> e) a' ta b' t"
| "rebuild (ELambdaExp a ta b) oe a' b' = ELambdaExp a' ta b'"
| "rebuild e oe a' b' = e"

lemma unbind_size:
  "unbind e = Some (oe, a, ta, b) \<Longrightarrow> size b < size e \<and> (\<forall>c. oe = Some c \<longrightarrow> size c < size e)"
  by (cases e) auto

fun as_var :: "exp \<Rightarrow> (string \<times> ty) option" where
  "as_var (EVar v t) = Some (v, t)"
| "as_var e = None"

text \<open>Free variables; \<open>bound\<close> holds the names bound on the way down.\<close>

function free_vars_in :: "string list \<Rightarrow> exp \<Rightarrow> exp list" where
  "free_vars_in bound e =
     (case as_var e of
        Some (v, t) \<Rightarrow> (if v \<in> set bound then [] else [e])
      | None \<Rightarrow>
        (case unbind e of
           Some (oe, a, ta, b) \<Rightarrow>
             (case oe of Some c \<Rightarrow> free_vars_in bound c | None \<Rightarrow> [])
             @ free_vars_in (a # bound) b
         | None \<Rightarrow> concat (map (free_vars_in bound) (children e))))"
  by pat_completeness auto
termination
  by (relation "measure (\<lambda>(bound, e). size e)")
     (auto simp: size_children size_list_member dest: size_list_snd_member unbind_size)

declare free_vars_in.simps [simp del]

definition plain_free_vars :: "exp \<Rightarrow> exp list" where
  "plain_free_vars e = remdups (free_vars_in [] e)"

definition free_names :: "exp \<Rightarrow> string list" where
  "free_names e = map (\<lambda>v. fst (var_id_type v)) (free_vars_in [] e)"

text \<open>A variant of the name \<open>a\<close> that is not in \<open>avoid\<close>.\<close>

definition fresh_for :: "string list \<Rightarrow> string \<Rightarrow> string" where
  "fresh_for avoid a =
     (case find (\<lambda>n. n \<notin> set avoid)
             (map (\<lambda>i. a @ replicate i (CHR 0x27)) [1 ..< length avoid + 2]) of
        Some n \<Rightarrow> n
      | None \<Rightarrow> a)"

function plain_subst :: "exp \<Rightarrow> (string \<times> exp) list \<Rightarrow> exp" where
  "plain_subst e env =
     (case as_var e of
        Some (v, t) \<Rightarrow> (case map_of env v of Some r \<Rightarrow> r | None \<Rightarrow> e)
      | None \<Rightarrow>
        (case unbind e of
           Some (oe, a, ta, b) \<Rightarrow>
             (let env1 = filter (\<lambda>p. fst p \<noteq> a) env;
                  incoming = concat (map (\<lambda>p. free_names (snd p)) env1);
                  a' = (if a \<in> set incoming then fresh_for (incoming @ free_names b) a else a);
                  env2 = (if a' = a then env1 else (a, EVar a' ta) # env1)
              in rebuild e (map_option (\<lambda>c. plain_subst c env) oe) a' (plain_subst b env2))
         | None \<Rightarrow> map_children (\<lambda>c. plain_subst c env) e))"
  by pat_completeness auto
termination
  by (relation "measure (\<lambda>(e, env). size e)")
     (auto simp: size_children size_list_member dest: size_list_snd_member unbind_size)

declare plain_subst.simps [simp del]

fun plain_apply_to :: "lam \<Rightarrow> exp \<Rightarrow> exp" where
  "plain_apply_to (ELambda a ta b) arg = plain_subst b [(a, arg)]"

fun plain_compose :: "lam \<Rightarrow> lam \<Rightarrow> lam" where
  "plain_compose (ELambda fa fta fb) (ELambda ga gta gb) = ELambda ga gta (plain_subst fb [(fa, gb)])"

fun plain_query_free_vars :: "query \<Rightarrow> exp list" where
  "plain_query_free_vars (Query name vis args assumptions ret_exp doc) =
     filter (\<lambda>v. fst (var_id_type v) \<notin> set (map fst args))
       (remdups (concat (map (free_vars_in []) assumptions) @ free_vars_in [] ret_exp))"

text \<open>Decimal digits of the counter, for the names the counter gives out.\<close>

function dec :: "nat \<Rightarrow> string" where
  "dec n = (if n < 10 then [char_of (48 + n)] else dec (n div 10) @ [char_of (48 + n mod 10)])"
  by pat_completeness auto
termination
  by (relation "measure id") auto

declare dec.simps [simp del]

definition plain_fresh_name :: "nat \<Rightarrow> string \<Rightarrow> string \<times> nat" where
  "plain_fresh_name k hint = (''_'' @ hint @ dec k, Suc k)"

definition plain_fresh_var :: "nat \<Rightarrow> ty \<Rightarrow> string option \<Rightarrow> exp list \<Rightarrow> string \<times> nat" where
  "plain_fresh_var k t hint omit =
     plain_fresh_name k (case hint of None \<Rightarrow> ''var'' | Some h \<Rightarrow> h)"

fun plain_EAll :: "exp list \<Rightarrow> exp" where
  "plain_EAll [] = T"
| "plain_EAll [a] = a"
| "plain_EAll (a # rest) = EBinOp a BAnd (plain_EAll rest) TBool"

fun plain_EAny :: "exp list \<Rightarrow> exp" where
  "plain_EAny [] = F"
| "plain_EAny [a] = a"
| "plain_EAny (a # rest) = EBinOp a BOr (plain_EAny rest) TBool"

fun plain_ESum :: "exp list \<Rightarrow> exp" where
  "plain_ESum [] = ZERO"
| "plain_ESum [a] = a"
| "plain_ESum (a # rest) = EBinOp a BPlus (plain_ESum rest) TInt"

definition plain_cond :: "exp \<Rightarrow> exp \<Rightarrow> exp \<Rightarrow> exp" where
  "plain_cond c a b =
     (if c = T then a else if c = F then b
      else if strip_types a = strip_types b then a
      else ECond c a b (type_of a))"

fun plain_seq :: "stm list \<Rightarrow> stm" where
  "plain_seq [] = SNoOp"
| "plain_seq (SNoOp # rest) = plain_seq rest"
| "plain_seq (s # rest) = (if plain_seq rest = SNoOp then s else SSeq s (plain_seq rest))"

fun plain_to_heap :: "exp \<Rightarrow> exp" where
  "plain_to_heap (EArgMin e a ta b t) = EMakeMinHeap e a ta b (TMinHeap t (type_of b))"
| "plain_to_heap (EArgMax e a ta b t) = EMakeMaxHeap e a ta b (TMaxHeap t (type_of b))"
| "plain_to_heap e = e"

fun plain_is_collection :: "ty \<Rightarrow> bool" where
  "plain_is_collection (TBag t) = True"
| "plain_is_collection (TSet t) = True"
| "plain_is_collection (TList t) = True"
| "plain_is_collection t = False"

fun plain_iter_type :: "ty \<Rightarrow> (string \<times> ty) list result" where
  "plain_iter_type (TRecord flds) = Ok flds"
| "plain_iter_type t = Raise TypeError"

fun plain_construct_value :: "ty \<Rightarrow> exp" where
  "plain_construct_value TBool = F"
| "plain_construct_value (TBag t) = EEmptyList (TBag t)"
| "plain_construct_value (TSet t) = EEmptyList (TSet t)"
| "plain_construct_value (TList t) = EEmptyList (TList t)"
| "plain_construct_value t = ENum 0 t"

text \<open>The oracle of the instance: what it proves, it proves by looking at the formula.\<close>

fun conjuncts :: "exp \<Rightarrow> exp list" where
  "conjuncts (EBinOp a BAnd b t) = conjuncts a @ conjuncts b"
| "conjuncts e = [e]"

fun same_value :: "exp \<Rightarrow> bool" where
  "same_value (EBinOp a BEq b t) = (plain_strip_EStateVar a = plain_strip_EStateVar b)"
| "same_value e = False"

fun plain_valid :: "exp \<Rightarrow> bool" where
  "plain_valid (EBinOp (EUnaryOp UNot a ta) BOr c t) =
     (c = T \<or> c \<in> set (conjuncts a) \<or> same_value c)"
| "plain_valid e = False"

definition plain :: deps where
  "plain = \<lparr>
     exp_eq = (\<lambda>a b. strip_types a = strip_types b),
     alpha_equivalent = (\<lambda>a b. strip_types a = strip_types b),
     subst = plain_subst,
     free_vars = plain_free_vars,
     query_free_vars = plain_query_free_vars,
     strip_EStateVar = plain_strip_EStateVar,
     apply_to = plain_apply_to,
     exp_size = node_count,
     exp_plus = (\<lambda>a b. EBinOp a BPlus b (type_of a)),
     pprint = (\<lambda>e. []),
     fresh_var = plain_fresh_var,
     fresh_name = plain_fresh_name,
     rewrite = (\<lambda>visit_lambda visit_get_field e. raise NotImplementedError),
     EAll = plain_EAll,
     EAny = plain_EAny,
     ESum = plain_ESum,
     ENot = (\<lambda>e. EUnaryOp UNot e TBool),
     EEq = (\<lambda>a b. EBinOp a BEq b TBool),
     ENe = (\<lambda>a b. EBinOp a BNe b TBool),
     EGt = (\<lambda>a b. EBinOp a BGt b TBool),
     EGe = (\<lambda>a b. EBinOp a BGe b TBool),
     ELe = (\<lambda>a b. EBinOp a BLe b TBool),
     EIn = (\<lambda>a b. EBinOp a BIn b TBool),
     EImplies = (\<lambda>a b. EBinOp (EUnaryOp UNot a TBool) BOr b TBool),
     ELen = (\<lambda>e. EUnaryOp ULength e TInt),
     EExists = (\<lambda>e. EUnaryOp UExists e TBool),
     EEmpty = (\<lambda>e. EUnaryOp UEmpty e TBool),
     ECountIn = (\<lambda>e c. EUnaryOp ULength
                   (EFilter c ''_x'' (type_of e) (EBinOp (EVar ''_x'' (type_of e)) BEq e TBool)
                      (type_of c)) TInt),
     seq = plain_seq,
     retypecheck = (\<lambda>e. True),
     is_numeric = (\<lambda>t. t = TInt),
     valid = plain_valid,
     solver_valid = (\<lambda>context. plain_valid),
     simplify = (\<lambda>e. e),
     cond = plain_cond,
     to_heap = plain_to_heap,
     compose = plain_compose,
     is_collection = plain_is_collection,
     iter_type = plain_iter_type,
     ELt = (\<lambda>a b. EBinOp a BLt b TBool),
     exp_minus = (\<lambda>a b. EBinOp a BMinus b (type_of a)),
     solver_satisfiable = (\<lambda>context e. False),
     solver_satisfy = (\<lambda>context e. None),
     eval_print = (\<lambda>e m. None),
     construct_value = plain_construct_value,
     skip_stateless_synthesis = False,
     update_numbers_with_deltas = False
   \<rparr>"

section \<open>Bags of numbers\<close>

text \<open>
  Modelled from the spec: the evaluator (\<^verbatim>\<open>cozy.evaluation\<close>) is not part of the given sources.
  \<open>bag_value\<close> is the bag an expression denotes when its variables denote bags of integers,
  for the expressions built from variables, the empty bag, singletons of integer literals,
  bag union \<^verbatim>\<open>+\<close>, bag difference \<^verbatim>\<open>-\<close> and the state-variable wrapper; any other expression
  reads as the empty bag.
\<close>

fun bag_value :: "(string \<Rightarrow> int multiset) \<Rightarrow> exp \<Rightarrow> int multiset" where
  "bag_value \<sigma> (EVar v t) = \<sigma> v"
| "bag_value \<sigma> (EEmptyList t) = {#}"
| "bag_value \<sigma> (ESingleton (ENum n tn) t) = {#n#}"
| "bag_value \<sigma> (EBinOp a BPlus b t) = bag_value \<sigma> a + bag_value \<sigma> b"
| "bag_value \<sigma> (EBinOp a BMinus b t) = bag_value \<sigma> a - bag_value \<sigma> b"
| "bag_value \<sigma> (EStateVar e t) = bag_value \<sigma> e"
| "bag_value \<sigma> e = {#}"

section \<open>Notions used in the statements\<close>

text \<open>
  A condition is atomic for \<^verbatim>\<open>fork\<close> when it is none of the forms that \<^verbatim>\<open>fork\<close> takes apart;
  \<open>atoms\<close> lists the atomic parts of a condition.
\<close>

fun atomic_cond :: "exp \<Rightarrow> bool" where
  "atomic_cond (EBinOp e1 BAnd e2 t) = False"
| "atomic_cond (EBinOp e1 BOr e2 t) = False"
| "atomic_cond (EUnaryOp UNot e t) = False"
| "atomic_cond (ECond c a b t) = False"
| "atomic_cond e = True"

fun atoms :: "exp \<Rightarrow> exp list" where
  "atoms (EBinOp e1 BAnd e2 t) = atoms e1 @ atoms e2"
| "atoms (EBinOp e1 BOr e2 t) = atoms e1 @ atoms e2"
| "atoms (EUnaryOp UNot e t) = atoms e"
| "atoms (ECond c a b t) = atoms c @ atoms a @ atoms b"
| "atoms e = [e]"

text \<open>
  What \<^verbatim>\<open>fork\<close> on the condition \<open>c\<close> with the branches \<open>t\<close> and \<open>e\<close> may end in: one of the two
  branches, or the signal \<open>ForkOn\<close> with an atomic part of \<open>c\<close>; never another exception.
\<close>

definition fork_outcome :: "exp \<Rightarrow> 'a \<Rightarrow> 'a \<Rightarrow> 'a result \<Rightarrow> bool" where
  "fork_outcome c t e r =
     (case r of
        Ok v \<Rightarrow> v = t \<or> v = e
      | ForkOn c' \<Rightarrow> atomic_cond c' \<and> c' \<in> set (atoms c)
      | Raise z \<Rightarrow> False)"

text \<open>A function that asks for a fork on \<open>c\<close> under the assumption \<open>T\<close> and returns \<open>r\<close> otherwise.\<close>

definition fork_once :: "exp \<Rightarrow> exp M" where
  "fork_once a = (if a = T then raise_fork (EVar ''c'' TBool) else ret (EVar ''r'' TInt))"


section \<open>Properties\<close>

lemma bnd_ret [simp]: "bnd (ret v) f = f v"
  by (simp add: bnd_def ret_def)

lemma bnd_raise [simp]: "bnd (raise z) f = raise z"
  by (simp add: bnd_def raise_def)

lemma bnd_Ok_iff:
  "bnd m f k = (Ok v, k') \<longleftrightarrow> (\<exists>u k1. m k = (Ok u, k1) \<and> f u k1 = (Ok v, k'))"
  by (auto simp: bnd_def split: prod.splits result.splits)

lemma plain_alpha_refl: "alpha_equivalent plain e e"
  by (simp add: plain_def)

subsection \<open>Collection calls are sugar\<close>

text \<open>
  C8. For every expression \<open>e\<close>: \<^verbatim>\<open>mutate\<close> under \<^verbatim>\<open>target.add(a)\<close> is \<^verbatim>\<open>mutate\<close> under
  \<^verbatim>\<open>target.add_all\<close> of the singleton of \<open>a\<close>; under \<^verbatim>\<open>target.remove(a)\<close> it is \<^verbatim>\<open>mutate\<close> under
  \<^verbatim>\<open>target.remove_all\<close> of that singleton; under \<^verbatim>\<open>target.add_all(xs)\<close> it is \<^verbatim>\<open>mutate\<close> under the
  assignment \<^verbatim>\<open>target = target + xs\<close>; and under \<^verbatim>\<open>target.remove_all(xs)\<close> it is \<^verbatim>\<open>mutate\<close> under
  \<^verbatim>\<open>target = target - xs\<close>. The two sides are the same computation, whatever the outside
  modules do.
\<close>

theorem mutate_collection_calls_desugar:
  "mutate x e (SCall target ''add'' [a])
     = mutate x e (SCall target ''add_all'' [ESingleton a (type_of target)])
   \<and> mutate x e (SCall target ''remove'' [a])
     = mutate x e (SCall target ''remove_all'' [ESingleton a (type_of target)])
   \<and> mutate x e (SCall target ''add_all'' [xs])
     = mutate x e (SAssign target (EBinOp target BPlus xs (type_of target)))
   \<and> mutate x e (SCall target ''remove_all'' [xs])
     = mutate x e (SAssign target (EBinOp target BMinus xs (type_of target)))"
  by simp

subsection \<open>A cached value that the statement leaves alone\<close>

text \<open>
  C10. When \<^verbatim>\<open>mutate(e.e, op)\<close> returns an expression alpha-equivalent to the wrapped
  expression \<^verbatim>\<open>e.e\<close>, \<^verbatim>\<open>better_mutate(e, ctx, op, A)\<close> returns its argument \<open>e\<close> itself, at any
  positive depth of calls, and no delta is computed: the counter is where \<^verbatim>\<open>mutate\<close> left it.
\<close>

theorem better_mutate_unchanged:
  assumes "mutate x e op k = (Ok m, k')" and "alpha_equivalent x e m"
  shows "better_mutate x (Suc n) (EStateVar e t) ctx op A k = (Ok (EStateVar e t), k')"
  using assms by (simp add: better_mutate_body_def bnd_def ret_def)

theorem better_mutate_unchanged_witness:
  "mutate plain (EVar ''xs'' (TBag TInt)) SNoOp 0 = (Ok (EVar ''xs'' (TBag TInt)), 0)
   \<and> alpha_equivalent plain (EVar ''xs'' (TBag TInt)) (EVar ''xs'' (TBag TInt))
   \<and> better_mutate plain (Suc 0) (EStateVar (EVar ''xs'' (TBag TInt)) (TBag TInt))
         (RootCtx [] []) SNoOp T 0
       = (Ok (EStateVar (EVar ''xs'' (TBag TInt)) (TBag TInt)), 0)"
proof -
  have m: "mutate plain (EVar ''xs'' (TBag TInt)) SNoOp 0 = (Ok (EVar ''xs'' (TBag TInt)), 0)"
    by (simp add: ret_def)
  have a: "alpha_equivalent plain (EVar ''xs'' (TBag TInt)) (EVar ''xs'' (TBag TInt))"
    by (rule plain_alpha_refl)
  show ?thesis
    using m a better_mutate_unchanged [OF m a, of 0 "TBag TInt" "RootCtx [] []" T] by simp
qed

subsection \<open>Forks\<close>

lemma fork_atomic:
  "atomic_cond c \<Longrightarrow>
   fork x ctx A c t e =
     (if solver_valid x ctx (EImplies x A c) then Ok t
      else if solver_valid x ctx (EImplies x A (ENot x c)) then Ok e
      else ForkOn c)"
  by (cases c rule: atomic_cond.cases) simp_all

lemma fork_outcome_holds:
  "fork_outcome c t e (fork x ctx A c t e)"
proof (induction x ctx A c t e rule: fork.induct)
  case (1 x ctx A e1 e2 ty then_branch else_branch)
  show ?case
  proof (cases "fork x ctx A e2 then_branch else_branch")
    case (Ok inner)
    with "1.IH"(1) have i: "inner = then_branch \<or> inner = else_branch"
      by (simp add: fork_outcome_def)
    from "1.IH"(2)[OF Ok] show ?thesis using Ok i
      by (auto simp: fork_outcome_def rbind_def split: result.splits)
  next
    case (ForkOn c')
    with "1.IH"(1) show ?thesis by (simp add: fork_outcome_def rbind_def)
  next
    case (Raise z)
    with "1.IH"(1) show ?thesis by (simp add: fork_outcome_def)
  qed
next
  case (2 x ctx A e1 e2 ty then_branch else_branch)
  show ?case
  proof (cases "fork x ctx A e2 then_branch else_branch")
    case (Ok inner)
    with "2.IH"(1) have i: "inner = then_branch \<or> inner = else_branch"
      by (simp add: fork_outcome_def)
    from "2.IH"(2)[OF Ok] show ?thesis using Ok i
      by (auto simp: fork_outcome_def rbind_def split: result.splits)
  next
    case (ForkOn c')
    with "2.IH"(1) show ?thesis by (simp add: fork_outcome_def rbind_def)
  next
    case (Raise z)
    with "2.IH"(1) show ?thesis by (simp add: fork_outcome_def)
  qed
next
  case (3 x ctx A e ty then_branch else_branch)
  then show ?case by (auto simp: fork_outcome_def split: result.splits)
next
  case (4 x ctx A c a b ty then_branch else_branch)
  show ?case
  proof (cases "fork x ctx A a then_branch else_branch")
    case r1: (Ok v1)
    with "4.IH"(1) have i1: "v1 = then_branch \<or> v1 = else_branch"
      by (simp add: fork_outcome_def)
    show ?thesis
    proof (cases "fork x ctx A b then_branch else_branch")
      case r2: (Ok v2)
      with "4.IH"(2)[OF r1] have i2: "v2 = then_branch \<or> v2 = else_branch"
        by (simp add: fork_outcome_def)
      from "4.IH"(3)[OF r1 r2] show ?thesis using r1 r2 i1 i2
        by (auto simp: fork_outcome_def rbind_def split: result.splits)
    next
      case (ForkOn c')
      with "4.IH"(2)[OF r1] show ?thesis using r1 by (simp add: fork_outcome_def rbind_def)
    next
      case (Raise z)
      with "4.IH"(2)[OF r1] show ?thesis by (simp add: fork_outcome_def)
    qed
  next
    case (ForkOn c')
    with "4.IH"(1) show ?thesis by (simp add: fork_outcome_def rbind_def)
  next
    case (Raise z)
    with "4.IH"(1) show ?thesis by (simp add: fork_outcome_def)
  qed
qed (simp_all add: fork_outcome_def)

text \<open>
  C5. For an atomic condition \<open>c\<close> (not an \<^verbatim>\<open>and\<close>, \<^verbatim>\<open>or\<close>, \<^verbatim>\<open>not\<close> or conditional),
  \<^verbatim>\<open>fork(ctx, A, c, t, e)\<close> returns \<open>t\<close> if the oracle validates that \<open>A\<close> implies \<open>c\<close>; if not, it
  returns \<open>e\<close> if the oracle validates that \<open>A\<close> implies \<^verbatim>\<open>not c\<close>; and otherwise it raises
  \<open>ForkOn\<close> carrying exactly \<open>c\<close>. A structured condition is first taken apart into nested forks
  (the inner forks run first, as arguments of the outer one), so that whatever the condition
  is, \<^verbatim>\<open>fork\<close> ends in one of its two branches or in \<open>ForkOn\<close> with an atomic part of the
  condition.
\<close>

theorem fork_decides_or_raises:
  "(atomic_cond c \<longrightarrow>
      fork x ctx A c t e =
        (if solver_valid x ctx (EImplies x A c) then Ok t
         else if solver_valid x ctx (EImplies x A (ENot x c)) then Ok e
         else ForkOn c))
   \<and> fork x ctx A (EBinOp c1 BAnd c2 ty) t e
       = rbind (fork x ctx A c2 t e) (\<lambda>inner. fork x ctx A c1 inner e)
   \<and> fork x ctx A (EBinOp c1 BOr c2 ty) t e
       = rbind (fork x ctx A c2 t e) (\<lambda>inner. fork x ctx A c1 t inner)
   \<and> fork x ctx A (EUnaryOp UNot c1 ty) t e = fork x ctx A c1 e t
   \<and> fork x ctx A (ECond c0 c1 c2 ty) t e
       = rbind (fork x ctx A c1 t e) (\<lambda>r1.
         rbind (fork x ctx A c2 t e) (\<lambda>r2. fork x ctx A c0 r1 r2))
   \<and> fork_outcome c t e (fork x ctx A c t e)"
  using fork_atomic[of c x ctx A t e] fork_outcome_holds[of c t e x ctx A] by simp

theorem fork_decides_or_raises_witness:
  "atomic_cond (EVar ''c'' TBool)
   \<and> fork plain (RootCtx [] []) (EVar ''c'' TBool) (EVar ''c'' TBool) (1::nat) 2 = Ok 1
   \<and> fork plain (RootCtx [] []) T (EVar ''c'' TBool) (1::nat) 2 = ForkOn (EVar ''c'' TBool)"
proof -
  have a: "atomic_cond (EVar ''c'' TBool)" by simp
  have v: "solver_valid plain (RootCtx [] []) (EImplies plain (EVar ''c'' TBool) (EVar ''c'' TBool))"
    by (simp add: plain_def)
  have n1: "\<not> solver_valid plain (RootCtx [] []) (EImplies plain T (EVar ''c'' TBool))"
    by (simp add: plain_def T_def)
  have n2: "\<not> solver_valid plain (RootCtx [] [])
               (EImplies plain T (ENot plain (EVar ''c'' TBool)))"
    by (simp add: plain_def T_def)
  from fork_decides_or_raises[of "EVar ''c'' TBool" plain "RootCtx [] []" "EVar ''c'' TBool"
      "1::nat" 2] a v
  have 1: "fork plain (RootCtx [] []) (EVar ''c'' TBool) (EVar ''c'' TBool) (1::nat) 2 = Ok 1"
    by simp
  from fork_decides_or_raises[of "EVar ''c'' TBool" plain "RootCtx [] []" T "1::nat" 2] a n1 n2
  have 2: "fork plain (RootCtx [] []) T (EVar ''c'' TBool) (1::nat) 2 = ForkOn (EVar ''c'' TBool)"
    by simp
  from a 1 2 show ?thesis by simp
qed

lemma resolve_forks_never_forks:
  "fst (resolve_forks x n A f k) \<noteq> ForkOn c"
proof (induction n arbitrary: A k)
  case 0
  show ?case by (simp add: raise_def)
next
  case (Suc n)
  obtain r k1 where fk: "f A k = (r, k1)" by (cases "f A k")
  show ?case
  proof (cases r)
    case (Ok v)
    with fk show ?thesis by simp
  next
    case (Raise z)
    with fk show ?thesis by simp
  next
    case (ForkOn b)
    obtain r1 k2 where a1: "resolve_forks x n (EAll x [A, b]) f k1 = (r1, k2)"
      by (cases "resolve_forks x n (EAll x [A, b]) f k1")
    obtain r2 k3 where a2: "resolve_forks x n (EAll x [A, ENot x b]) f k2 = (r2, k3)"
      by (cases "resolve_forks x n (EAll x [A, ENot x b]) f k2")
    from Suc[of "EAll x [A, b]" k1] a1 have n1: "r1 \<noteq> ForkOn c" by simp
    from Suc[of "EAll x [A, ENot x b]" k2] a2 have n2: "r2 \<noteq> ForkOn c" by simp
    show ?thesis using fk ForkOn a1 a2 n1 n2
      by (cases r1; cases r2) (simp_all add: bnd_def ret_def)
  qed
qed

text \<open>
  C6. \<^verbatim>\<open>resolve_forks(A, f)\<close> never ends in \<open>ForkOn\<close>, at any depth of calls: when \<open>f\<close> under \<open>A\<close>
  raises \<open>ForkOn\<close> with the condition \<open>c\<close>, the result is the conditional on \<open>c\<close> (built by \<^verbatim>\<open>cond\<close>)
  of \<^verbatim>\<open>resolve_forks\<close> of \<open>f\<close> under \<open>A\<close> and \<open>c\<close> and of \<^verbatim>\<open>resolve_forks\<close> of \<open>f\<close> under \<open>A\<close> and
  \<^verbatim>\<open>not c\<close>; a value or another exception of \<open>f\<close> is passed on as it is. Expressions have no
  node that marks a pending case split, so a returned expression holds none.
\<close>

theorem resolve_forks_recovers:
  "fst (resolve_forks x n A f k) \<noteq> ForkOn c'
   \<and> (f A k = (ForkOn c, k') \<longrightarrow>
        resolve_forks x (Suc n) A f k =
          bnd (resolve_forks x n (EAll x [A, c]) f) (\<lambda>r1.
          bnd (resolve_forks x n (EAll x [A, ENot x c]) f) (\<lambda>r2.
            ret (cond x c r1 r2))) k')
   \<and> (f A k = (Ok v, k') \<longrightarrow> resolve_forks x (Suc n) A f k = (Ok v, k'))
   \<and> (f A k = (Raise z, k') \<longrightarrow> resolve_forks x (Suc n) A f k = (Raise z, k'))"
  using resolve_forks_never_forks[of x n A f k c'] by simp

theorem resolve_forks_recovers_witness:
  "fork_once T 0 = (ForkOn (EVar ''c'' TBool), 0)
   \<and> resolve_forks plain (Suc (Suc 0)) T fork_once 0 = (Ok (EVar ''r'' TInt), 0)"
proof -
  have f: "fork_once T 0 = (ForkOn (EVar ''c'' TBool), 0)"
    by (simp add: fork_once_def raise_fork_def)
  have n1: "EAll plain [T, EVar ''c'' TBool] \<noteq> T"
    by (simp add: plain_def T_def)
  have n2: "EAll plain [T, ENot plain (EVar ''c'' TBool)] \<noteq> T"
    by (simp add: plain_def T_def)
  have r1: "resolve_forks plain (Suc 0) (EAll plain [T, EVar ''c'' TBool]) fork_once 0
              = (Ok (EVar ''r'' TInt), 0)"
    using n1 by (simp add: fork_once_def ret_def)
  have r2: "resolve_forks plain (Suc 0) (EAll plain [T, ENot plain (EVar ''c'' TBool)]) fork_once 0
              = (Ok (EVar ''r'' TInt), 0)"
    using n2 by (simp add: fork_once_def ret_def)
  have c: "cond plain (EVar ''c'' TBool) (EVar ''r'' TInt) (EVar ''r'' TInt) = EVar ''r'' TInt"
    by (simp add: plain_def plain_cond_def T_def F_def)
  from resolve_forks_recovers[of plain "Suc 0" T fork_once 0 T "EVar ''c'' TBool" 0]
  have "resolve_forks plain (Suc (Suc 0)) T fork_once 0 =
          bnd (resolve_forks plain (Suc 0) (EAll plain [T, EVar ''c'' TBool]) fork_once) (\<lambda>r1.
          bnd (resolve_forks plain (Suc 0) (EAll plain [T, ENot plain (EVar ''c'' TBool)]) fork_once)
            (\<lambda>r2. ret (cond plain (EVar ''c'' TBool) r1 r2))) 0"
    using f by blast
  then show ?thesis
    using f r1 r2 c by (simp add: bnd_def ret_def)
qed


end
